theory Spec2Isabelle
  imports Complex_Main "HOL-Library.AList"
begin

section \<open>Data model\<close>

text \<open>
  Clock readings (\<open>time.time()\<close>, \<open>datetime.utcnow()\<close>) are values of type \<open>time\<close>;
  every function that reads the clock takes the reading as an argument.
\<close>

type_synonym time = real

text \<open>\<open>app/models/task_model.py\<close>: the enum \<open>TaskStatus\<close> and the row class \<open>Task\<close>.\<close>

datatype TaskStatus = PENDING | RUNNING | COMPLETED | FAILED | RETRYING

record Task =
  id' :: int
  task_type :: string
  payload :: string
  status :: TaskStatus
  result :: "string option"
  error_message :: "string option"
  retry_count :: int
  max_retries :: int
  created_at :: "time option"
  started_at :: "time option"
  completed_at :: "time option"

text \<open>\<open>app/core/config.py\<close>: the two task settings (defaults 3 and 5).\<close>

record Settings =
  settings_max_retries :: int
  retry_delay :: int

definition default_settings :: Settings where
  "default_settings = \<lparr>settings_max_retries = 3, retry_delay = 5\<rparr>"

text \<open>
  A raised Python exception: its class name (\<open>type(e).__name__\<close>) and its text
  (\<open>str(e)\<close>).
\<close>

datatype exn = Exn (class_name: string) (str_of: string)

text \<open>
  FastAPI's \<open>HTTPException(status_code, detail)\<close>. The detail is a literal text, or
  \<open>str(e)\<close> of a caught exception \<open>e\<close>, kept symbolic: \<open>e\<close> is a plain exception or an
  \<open>HTTPException\<close> itself.
\<close>

datatype http_exn = HTTPException (status_code: int) (detail: http_detail)
  and http_detail = Literal string | StrOfExn exn | StrOfHttp http_exn

section \<open>Retry handler: \<open>app/services/retry_handler.py\<close>\<close>

datatype RetryStrategy = FIXED | EXPONENTIAL | LINEAR | JITTER

text \<open>
  A circuit breaker is the dict \<open>{"failures", "last_failure", "state"}\<close>; the state is
  one of the three string literals the code assigns.
\<close>

datatype breaker_state = Closed | Open | HalfOpen

record breaker =
  failures :: int
  last_failure :: "time option"
  state :: breaker_state

record RetryHandler =
  circuit_breakers :: "string \<rightharpoonup> breaker"
  failure_threshold :: int
  recovery_timeout :: real

text \<open>\<open>RetryHandler.__init__\<close>\<close>

definition RetryHandler_init :: RetryHandler where
  "RetryHandler_init =
     \<lparr>circuit_breakers = Map.empty, failure_threshold = 5, recovery_timeout = 60\<rparr>"

definition new_breaker :: breaker where
  "new_breaker = \<lparr>failures = 0, last_failure = None, state = Closed\<rparr>"

text \<open>
  The breaker that \<open>self.circuit_breakers[task_type]\<close> denotes after the
  ``create it when absent'' prologue of \<open>_check_circuit_breaker\<close> and \<open>record_failure\<close>.
\<close>

definition breaker_of :: "RetryHandler \<Rightarrow> string \<Rightarrow> breaker" where
  "breaker_of h k = (case circuit_breakers h k of None \<Rightarrow> new_breaker | Some b \<Rightarrow> b)"

definition set_breaker :: "RetryHandler \<Rightarrow> string \<Rightarrow> breaker \<Rightarrow> RetryHandler" where
  "set_breaker h k b = h\<lparr>circuit_breakers := (circuit_breakers h)(k \<mapsto> b)\<rparr>"

text \<open>
  \<open>_check_circuit_breaker\<close>, given the reading of \<open>time.time()\<close>. The test
  \<open>breaker["last_failure"] and ...\<close> is Python truthiness: \<open>None\<close> and \<open>0.0\<close> are false.
\<close>

definition check_circuit_breaker :: "RetryHandler \<Rightarrow> string \<Rightarrow> time \<Rightarrow> bool \<times> RetryHandler" where
  "check_circuit_breaker h k now =
     (let b = breaker_of h k in
      if state b = Open then
        (case last_failure b of
           None \<Rightarrow> (False, set_breaker h k b)
         | Some t \<Rightarrow>
             if t \<noteq> 0 \<and> now - t > recovery_timeout h
             then (True, set_breaker h k (b\<lparr>state := HalfOpen\<rparr>))
             else (False, set_breaker h k b))
      else (True, set_breaker h k b))"

definition record_success :: "RetryHandler \<Rightarrow> string \<Rightarrow> RetryHandler" where
  "record_success h k =
     (case circuit_breakers h k of
        None \<Rightarrow> h
      | Some b \<Rightarrow>
          if state b = HalfOpen
          then set_breaker h k (b\<lparr>state := Closed, failures := 0\<rparr>)
          else h)"

definition record_failure :: "RetryHandler \<Rightarrow> string \<Rightarrow> time \<Rightarrow> RetryHandler" where
  "record_failure h k now =
     (let b = breaker_of h k;
          b1 = b\<lparr>failures := failures b + 1, last_failure := Some now\<rparr>
      in if failures b1 \<ge> failure_threshold h \<and> state b1 \<noteq> Open
         then set_breaker h k (b1\<lparr>state := Open\<rparr>)
         else set_breaker h k b1)"

definition reset_circuit_breaker :: "RetryHandler \<Rightarrow> string \<Rightarrow> RetryHandler" where
  "reset_circuit_breaker h k =
     (case circuit_breakers h k of
        None \<Rightarrow> h
      | Some b \<Rightarrow> set_breaker h k new_breaker)"

text \<open>\<open>_get_retry_strategy\<close>: classification by the exception's class name.\<close>

definition get_retry_strategy :: "string \<Rightarrow> exn \<Rightarrow> RetryStrategy" where
  "get_retry_strategy tt error =
     (let error_type = class_name error in
      if error_type \<in> set [''ConnectionError'', ''TimeoutError'', ''NetworkError'']
      then EXPONENTIAL
      else if error_type \<in> set [''RateLimitError'', ''TooManyRequestsError'']
      then JITTER
      else if error_type \<in> set [''DatabaseError'', ''ConnectionPoolError'']
      then LINEAR
      else EXPONENTIAL)"

section \<open>Python's float arithmetic\<close>

text \<open>
  A Python \<open>float\<close> is an IEEE 754 binary64 number. A finite one is modelled by the real
  number it denotes, and the result of an operation is its exact result rounded to the
  nearest float, ties to the even significand: with 53 significant bits, a number in the
  binade \<open>[2^b, 2^(b+1))\<close> is rounded to a multiple of \<open>2^(b - 52)\<close>, and below
  \<open>2^(-1022)\<close> (the subnormal range) to a multiple of \<open>2^(-1074)\<close>.
\<close>

definition binade :: "real \<Rightarrow> int" where
  "binade x = max \<lfloor>log 2 \<bar>x\<bar>\<rfloor> (- 1022)"

definition ulp :: "real \<Rightarrow> real" where
  "ulp x = 2 powr real_of_int (binade x - 52)"

definition round_half_even :: "real \<Rightarrow> int" where
  "round_half_even y =
     (let f = \<lfloor>y\<rfloor> in
      if y - real_of_int f < 1 / 2 then f
      else if y - real_of_int f > 1 / 2 then f + 1
      else if even f then f else f + 1)"

definition round_double :: "real \<Rightarrow> real" where
  "round_double x = (if x = 0 then 0 else real_of_int (round_half_even (x / ulp x)) * ulp x)"

text \<open>
  A rounded result of magnitude \<open>2^1024\<close> or more is beyond the largest float: an
  arithmetic operation then yields an infinity (its sign plays no part below), and the
  conversion of an \<open>int\<close> raises \<open>OverflowError\<close>.
\<close>

datatype pyfloat = Finite real | Infinite

definition to_pyfloat :: "real \<Rightarrow> pyfloat" where
  "to_pyfloat x = (let r = round_double x in if \<bar>r\<bar> \<ge> 2 ^ 1024 then Infinite else Finite r)"

text \<open>The conversion applied to the \<open>int\<close> operand of \<open>float * int\<close> and \<open>int + float\<close>.\<close>

definition float_of_int :: "int \<Rightarrow> exn + real" where
  "float_of_int i =
     (let r = round_double (real_of_int i) in
      if \<bar>r\<bar> \<ge> 2 ^ 1024
      then Inl (Exn ''OverflowError'' ''int too large to convert to float'')
      else Inr r)"

definition float_mul :: "real \<Rightarrow> real \<Rightarrow> pyfloat" where
  "float_mul a b = to_pyfloat (a * b)"

definition float_add :: "real \<Rightarrow> pyfloat \<Rightarrow> pyfloat" where
  "float_add a y = (case y of Finite b \<Rightarrow> to_pyfloat (a + b) | Infinite \<Rightarrow> Infinite)"

text \<open>Python's \<open>int(x)\<close> on a float: truncation toward zero, \<open>OverflowError\<close> on an infinity.\<close>

definition py_int :: "real \<Rightarrow> int" where
  "py_int x = (if x \<ge> 0 then \<lfloor>x\<rfloor> else \<lceil>x\<rceil>)"

definition int_of_float :: "pyfloat \<Rightarrow> exn + int" where
  "int_of_float y =
     (case y of
        Finite x \<Rightarrow> Inr (py_int x)
      | Infinite \<Rightarrow> Inl (Exn ''OverflowError'' ''cannot convert float infinity to integer''))"

section \<open>Retry policy: \<open>app/services/retry_handler.py\<close>\<close>

text \<open>
  \<open>_calculate_retry_delay\<close>: the delay, or the exception raised. \<open>u\<close> is the float
  returned by \<open>random.uniform(0.1, 0.3)\<close>. The jitter branch is float arithmetic:
  \<open>u * exponential_delay\<close> and \<open>exponential_delay + jitter\<close> convert the \<open>int\<close> operand to
  a float and round their result. \<open>2 ** task.retry_count\<close> is the integer power for the
  non-negative counts the store holds (the column starts at 0 and is only incremented);
  for a negative count Python would yield a float, which this model does not cover.
\<close>

definition calculate_retry_delay :: "Settings \<Rightarrow> Task \<Rightarrow> exn \<Rightarrow> real \<Rightarrow> exn + int" where
  "calculate_retry_delay cfg task error u =
     (let strategy = get_retry_strategy (task_type task) error;
          base_delay = retry_delay cfg
      in case strategy of
           FIXED \<Rightarrow> Inr base_delay
         | EXPONENTIAL \<Rightarrow> Inr (min (base_delay * 2 ^ nat (retry_count task)) 300)
         | LINEAR \<Rightarrow> Inr (min (base_delay * (retry_count task + 1)) 120)
         | JITTER \<Rightarrow>
             (let exponential_delay = base_delay * 2 ^ nat (retry_count task) in
              case float_of_int exponential_delay of
                Inl err \<Rightarrow> Inl err
              | Inr ef \<Rightarrow>
                  (let jitter = float_mul u ef;
                       delay = float_add ef jitter
                   in case int_of_float delay of
                        Inl err \<Rightarrow> Inl err
                      | Inr d \<Rightarrow> Inr (min d 300))))"

text \<open>
  \<open>should_retry\<close>: the decision with the delay, or the exception raised while the delay
  was computed, and the handler after the breaker check.
\<close>

definition should_retry ::
  "Settings \<Rightarrow> RetryHandler \<Rightarrow> Task \<Rightarrow> exn \<Rightarrow> time \<Rightarrow> real
     \<Rightarrow> (exn + bool \<times> int option) \<times> RetryHandler" where
  "should_retry cfg h task error now u =
     (if retry_count task \<ge> max_retries task then (Inr (False, None), h)
      else
        (case check_circuit_breaker h (task_type task) now of
           (False, h') \<Rightarrow> (Inr (False, None), h')
         | (True, h') \<Rightarrow>
             (case calculate_retry_delay cfg task error u of
                Inl err \<Rightarrow> (Inl err, h')
              | Inr d \<Rightarrow> (Inr (True, Some d), h'))))"

text \<open>
  A call of the registry's interface, and a run of such calls: what a process does to
  its \<open>RetryHandler\<close> over time.
\<close>

datatype breaker_call =
    RecordFailure string time
  | RecordSuccess string
  | CheckBreaker string time
  | ResetBreaker string

fun call_kind :: "breaker_call \<Rightarrow> string" where
  "call_kind (RecordFailure k t) = k"
| "call_kind (RecordSuccess k) = k"
| "call_kind (CheckBreaker k t) = k"
| "call_kind (ResetBreaker k) = k"

fun is_failure :: "breaker_call \<Rightarrow> bool" where
  "is_failure (RecordFailure k t) = True"
| "is_failure c = False"

fun is_success_or_reset :: "breaker_call \<Rightarrow> bool" where
  "is_success_or_reset (RecordSuccess k) = True"
| "is_success_or_reset (ResetBreaker k) = True"
| "is_success_or_reset c = False"

fun is_failure_or_success :: "breaker_call \<Rightarrow> bool" where
  "is_failure_or_success (RecordFailure k t) = True"
| "is_failure_or_success (RecordSuccess k) = True"
| "is_failure_or_success c = False"

fun do_call :: "RetryHandler \<Rightarrow> breaker_call \<Rightarrow> RetryHandler" where
  "do_call h (RecordFailure k t) = record_failure h k t"
| "do_call h (RecordSuccess k) = record_success h k"
| "do_call h (CheckBreaker k t) = snd (check_circuit_breaker h k t)"
| "do_call h (ResetBreaker k) = reset_circuit_breaker h k"

definition run_calls :: "RetryHandler \<Rightarrow> breaker_call list \<Rightarrow> RetryHandler" where
  "run_calls h cs = foldl do_call h cs"

text \<open>The failures recorded for kind \<open>k\<close> in a run.\<close>

definition failures_in :: "string \<Rightarrow> breaker_call list \<Rightarrow> nat" where
  "failures_in k cs = length (filter (\<lambda>c. is_failure c \<and> call_kind c = k) cs)"

section \<open>Dead letter queue: \<open>app/services/retry_handler.py\<close>\<close>

text \<open>
  The snapshot dict built by \<open>add_dead_letter\<close>. \<open>dead_tasks\<close> is a Python dict keyed by
  task id; it is listed and iterated, so it is kept as the list of its items in
  insertion order: assignment to a present key replaces the value in place, assignment
  to a new key appends, \<open>del\<close> drops the item.
\<close>

record dead_letter =
  dl_task_id :: int
  dl_task_type :: string
  dl_payload :: string
  dl_error_message :: string
  dl_error_type :: string
  dl_retry_count :: int
  dl_max_retries :: int
  dl_created_at :: "time option"
  failed_at :: time

type_synonym dead_tasks = "(int \<times> dead_letter) list"

definition add_dead_letter :: "dead_tasks \<Rightarrow> Task \<Rightarrow> exn \<Rightarrow> time \<Rightarrow> dead_tasks" where
  "add_dead_letter dq task error now =
     (let dead_letter =
        \<lparr>dl_task_id = id' task,
         dl_task_type = task_type task,
         dl_payload = payload task,
         dl_error_message = str_of error,
         dl_error_type = class_name error,
         dl_retry_count = retry_count task,
         dl_max_retries = max_retries task,
         dl_created_at = created_at task,
         failed_at = now\<rparr>
      in AList.update (id' task) dead_letter dq)"

text \<open>
  An optional \<open>task_type\<close> argument is tested by truthiness (\<open>if task_type:\<close>):
  \<open>None\<close> and the empty string both mean ``no filter''.
\<close>

definition type_filter :: "string option \<Rightarrow> string option" where
  "type_filter tt = (case tt of None \<Rightarrow> None | Some s \<Rightarrow> if s = [] then None else Some s)"

definition get_dead_letters :: "dead_tasks \<Rightarrow> string option \<Rightarrow> dead_letter list" where
  "get_dead_letters dq tt =
     (case type_filter tt of
        Some s \<Rightarrow> filter (\<lambda>task. dl_task_type task = s) (map snd dq)
      | None \<Rightarrow> map snd dq)"

text \<open>
  \<open>purge_dead_letters\<close>: the first loop collects \<open>to_remove\<close>, the second deletes; the
  result is the count and the new dict.
\<close>

definition purge_selected :: "string option \<Rightarrow> time \<Rightarrow> int \<times> dead_letter \<Rightarrow> bool" where
  "purge_selected tt cutoff_time item =
     (case item of (task_id, dead_task) \<Rightarrow>
        (case type_filter tt of
           Some s \<Rightarrow> dl_task_type dead_task = s \<and> failed_at dead_task < cutoff_time
         | None \<Rightarrow> failed_at dead_task < cutoff_time))"

definition purge_dead_letters ::
  "dead_tasks \<Rightarrow> string option \<Rightarrow> int \<Rightarrow> time \<Rightarrow> nat \<times> dead_tasks" where
  "purge_dead_letters dq tt older_than_hours now =
     (let cutoff_time = now - real_of_int (older_than_hours * 3600);
          to_remove = map fst (filter (purge_selected tt cutoff_time) dq)
      in (length to_remove, foldl (\<lambda>d task_id. AList.delete task_id d) dq to_remove))"

section \<open>Task store: \<open>app/services/task_queue.py\<close>\<close>

text \<open>
  The JSON codec and the embedding of a Python \<open>str\<close> among Python values are parameters:
  \<open>'v\<close> is the type of decoded payloads and results, \<open>json_loads\<close> returns \<open>None\<close> where
  \<open>json.loads\<close> raises.
\<close>

record 'v python =
  json_dumps :: "'v \<Rightarrow> string"
  json_loads :: "string \<Rightarrow> 'v option"
  str_value :: "string \<Rightarrow> 'v"

text \<open>
  \<open>TaskQueue\<close>: the \<open>tasks\<close> table with its primary-key sequence, the in-memory
  \<open>asyncio.Queue\<close> of ids and the \<open>_tasks\<close> cache (keyed by \<open>str(task.id)\<close>, here by the
  id). Every method opens a session of its own, so a \<open>Task\<close> object a method returns is a
  detached copy of the row: assigning to its attributes afterwards does not reach the
  table. The database itself is assumed to answer; the only exception a method raises
  is its own \<open>ValueError\<close>.
\<close>

record TaskQueue =
  table :: "int \<rightharpoonup> Task"
  next_id :: int
  tq_queue :: "int list"
  tq_tasks :: "int \<rightharpoonup> Task"

text \<open>Decimal text of an integer, for \<open>f"Task {task_id} not found"\<close>.\<close>

fun str_nat :: "nat \<Rightarrow> string" where
  "str_nat n = (if n < 10 then [char_of (48 + n)] else str_nat (n div 10) @ [char_of (48 + n mod 10)])"

definition str_int :: "int \<Rightarrow> string" where
  "str_int i = (if i < 0 then ''-'' @ str_nat (nat (- i)) else str_nat (nat i))"

definition tq_create_task ::
  "'v python \<Rightarrow> Settings \<Rightarrow> TaskQueue \<Rightarrow> string \<Rightarrow> 'v \<Rightarrow> time \<Rightarrow> Task \<times> TaskQueue" where
  "tq_create_task py cfg tq tt pl now =
     (let task =
        \<lparr>id' = next_id tq,
         task_type = tt,
         payload = json_dumps py pl,
         status = PENDING,
         result = None,
         error_message = None,
         retry_count = 0,
         max_retries = settings_max_retries cfg,
         created_at = Some now,
         started_at = None,
         completed_at = None\<rparr>
      in (task,
          tq\<lparr>table := (table tq)(id' task \<mapsto> task),
             next_id := next_id tq + 1,
             tq_queue := tq_queue tq @ [id' task],
             tq_tasks := (tq_tasks tq)(id' task \<mapsto> task)\<rparr>))"

definition get_task :: "TaskQueue \<Rightarrow> int \<Rightarrow> Task option" where
  "get_task tq task_id = table tq task_id"

text \<open>
  \<open>update_task_status\<close>; \<open>now\<close> is the reading of \<open>datetime.utcnow()\<close>, used only by
  the two timestamp branches.
\<close>

definition update_task_status ::
  "TaskQueue \<Rightarrow> int \<Rightarrow> TaskStatus \<Rightarrow> string option \<Rightarrow> string option \<Rightarrow> time
     \<Rightarrow> exn + Task \<times> TaskQueue" where
  "update_task_status tq task_id st res err now =
     (case table tq task_id of
        None \<Rightarrow> Inl (Exn ''ValueError'' (''Task '' @ str_int task_id @ '' not found''))
      | Some task0 \<Rightarrow>
          (let task1 = task0\<lparr>status := st\<rparr>;
               task2 = (case res of None \<Rightarrow> task1 | Some r \<Rightarrow> task1\<lparr>result := Some r\<rparr>);
               task3 = (case err of None \<Rightarrow> task2 | Some m \<Rightarrow> task2\<lparr>error_message := Some m\<rparr>);
               task4 =
                 (if st = RUNNING \<and> started_at task3 = None
                  then task3\<lparr>started_at := Some now\<rparr>
                  else if st \<in> set [COMPLETED, FAILED]
                  then task3\<lparr>completed_at := Some now\<rparr>
                  else task3)
           in Inr (task4,
                   tq\<lparr>table := (table tq)(task_id \<mapsto> task4),
                      tq_tasks := (tq_tasks tq)(task_id \<mapsto> task4)\<rparr>)))"

text \<open>\<open>retry_task\<close>, the store's own retry path (used by the basic executor and worker).\<close>

definition retry_task :: "TaskQueue \<Rightarrow> int \<Rightarrow> exn + Task \<times> TaskQueue" where
  "retry_task tq task_id =
     (case table tq task_id of
        None \<Rightarrow> Inl (Exn ''ValueError'' (''Task '' @ str_int task_id @ '' not found''))
      | Some task \<Rightarrow>
          (if retry_count task \<ge> max_retries task
           then
             (let task' = task\<lparr>status := FAILED,
                    error_message := Some (''Max retries ('' @ str_int (max_retries task) @ '') exceeded'')\<rparr>
              in Inr (task', tq\<lparr>table := (table tq)(task_id \<mapsto> task')\<rparr>))
           else
             (let task' = task\<lparr>retry_count := retry_count task + 1, status := RETRYING,
                    error_message := None\<rparr>
              in Inr (task', tq\<lparr>table := (table tq)(task_id \<mapsto> task'),
                                 tq_queue := tq_queue tq @ [id' task]\<rparr>))))"

section \<open>Redis queue: \<open>app/services/redis_queue.py\<close>\<close>

text \<open>
  The envelope \<open>task_data\<close> pushed to the Redis list, the list itself (head = left end,
  where \<open>lpush\<close> adds and from whose other end \<open>brpop\<close> takes), and the ids that have a
  \<open>processing:<id>\<close> key.
\<close>

record 'v task_data =
  td_id :: int
  td_task_type :: string
  td_payload :: 'v
  td_created_at :: "time option"

record 'v RedisTaskQueue =
  task_queue_key :: "'v task_data list"
  processing :: "int set"

definition complete_task :: "'v RedisTaskQueue \<Rightarrow> int \<Rightarrow> 'v RedisTaskQueue" where
  "complete_task rq task_id = rq\<lparr>processing := processing rq - {task_id}\<rparr>"

definition get_next_task :: "'v RedisTaskQueue \<Rightarrow> 'v task_data option \<times> 'v RedisTaskQueue" where
  "get_next_task rq =
     (if task_queue_key rq = [] then (None, rq)
      else
        (let task_data = last (task_queue_key rq)
         in (Some task_data,
             rq\<lparr>task_queue_key := butlast (task_queue_key rq),
                processing := insert (td_id task_data) (processing rq)\<rparr>)))"

section \<open>The process state\<close>

text \<open>
  The module-level singletons one process holds, the executor's counters, the worker's
  counter, and the retry timers created by \<open>asyncio.create_task\<close> (the detached task
  object each one captured, with its delay).
\<close>

record ExecutionStats =
  total_executed :: int
  successful :: int
  failed :: int
  retried :: int

record 'v world =
  task_queue :: TaskQueue
  redis_queue :: "'v RedisTaskQueue"
  retry_handler :: RetryHandler
  dead_letter_queue :: dead_tasks
  execution_stats :: ExecutionStats
  timers :: "(Task \<times> int option) list"
  tasks_processed :: int

text \<open>\<open>RedisTaskQueue.create_task\<close>: a new row in the store, then \<open>lpush\<close> of its envelope.\<close>

definition create_task ::
  "'v python \<Rightarrow> Settings \<Rightarrow> 'v world \<Rightarrow> string \<Rightarrow> 'v \<Rightarrow> time \<Rightarrow> Task \<times> 'v world" where
  "create_task py cfg w tt pl now =
     (case tq_create_task py cfg (task_queue w) tt pl now of
        (task, tq') \<Rightarrow>
          (let task_data =
             \<lparr>td_id = id' task, td_task_type = tt, td_payload = pl,
              td_created_at = created_at task\<rparr>
           in (task,
               w\<lparr>task_queue := tq',
                 redis_queue := (redis_queue w)
                   \<lparr>task_queue_key := task_data # task_queue_key (redis_queue w)\<rparr>\<rparr>)))"

section \<open>Enhanced executor: \<open>app/services/enhanced_task_executor.py\<close>\<close>

text \<open>
  The four workloads draw random numbers, sleep and decode the payload; each is a
  parameter that returns the result or the exception raised.
\<close>

record 'v handlers =
  process_text_with_errors :: "Task \<Rightarrow> exn + 'v"
  ai_summarize_with_errors :: "Task \<Rightarrow> exn + 'v"
  batch_process_with_errors :: "Task \<Rightarrow> exn + 'v"
  process_image_with_errors :: "Task \<Rightarrow> exn + 'v"

definition run_handler :: "'v handlers \<Rightarrow> Task \<Rightarrow> exn + 'v" where
  "run_handler hs task =
     (if task_type task = ''text_processing'' then process_text_with_errors hs task
      else if task_type task = ''ai_summarization'' then ai_summarize_with_errors hs task
      else if task_type task = ''batch_processing'' then batch_process_with_errors hs task
      else if task_type task = ''image_processing'' then process_image_with_errors hs task
      else Inl (Exn ''ValueError'' (''Unknown task type: '' @ task_type task)))"

text \<open>The clock readings one execution takes, in the order of the source.\<close>

record clock =
  at_running :: time
  at_finish :: time
  at_failure :: time
  at_check :: time
  at_dead_letter :: time

text \<open>
  The body of the \<open>try\<close> block of \<open>execute_task\<close>: the handler's result, or the exception
  that left the block, and the state reached.
\<close>

definition attempt ::
  "'v python \<Rightarrow> 'v handlers \<Rightarrow> clock \<Rightarrow> 'v world \<Rightarrow> Task \<Rightarrow> (exn + 'v) \<times> 'v world" where
  "attempt py hs clk w task =
     (case update_task_status (task_queue w) (id' task) RUNNING None None (at_running clk) of
        Inl e \<Rightarrow> (Inl e, w)
      | Inr (t1, tq1) \<Rightarrow>
          (case run_handler hs task of
             Inl e \<Rightarrow> (Inl e, w\<lparr>task_queue := tq1\<rparr>)
           | Inr r \<Rightarrow>
               (case update_task_status tq1 (id' task) COMPLETED (Some (json_dumps py r)) None
                       (at_finish clk) of
                  Inl e \<Rightarrow> (Inl e, w\<lparr>task_queue := tq1\<rparr>)
                | Inr (t2, tq2) \<Rightarrow>
                    (Inr r,
                     w\<lparr>task_queue := tq2,
                       retry_handler := record_success (retry_handler w) (task_type task),
                       execution_stats := (execution_stats w)
                         \<lparr>successful := successful (execution_stats w) + 1\<rparr>\<rparr>))))"

text \<open>
  \<open>_schedule_retry\<close>: the row is set to RETRYING, then \<open>task.retry_count += 1\<close> is applied
  to the executor's detached \<open>task\<close> object, which the new timer captures.
\<close>

definition schedule_retry :: "'v world \<Rightarrow> Task \<Rightarrow> int option \<Rightarrow> time \<Rightarrow> exn + 'v world" where
  "schedule_retry w task delay now =
     (case update_task_status (task_queue w) (id' task) RETRYING None None now of
        Inl e \<Rightarrow> Inl e
      | Inr (t, tq') \<Rightarrow>
          (let task' = task\<lparr>retry_count := retry_count task + 1\<rparr>
           in Inr (w\<lparr>task_queue := tq', timers := timers w @ [(task', delay)]\<rparr>)))"

text \<open>
  \<open>_retry_after_delay\<close>, when the timer fires: \<open>json.loads\<close> of the captured payload,
  then \<open>redis_queue.create_task\<close>; an exception is logged and swallowed.
\<close>

definition retry_after_delay ::
  "'v python \<Rightarrow> Settings \<Rightarrow> 'v world \<Rightarrow> Task \<Rightarrow> time \<Rightarrow> 'v world" where
  "retry_after_delay py cfg w task now =
     (case json_loads py (payload task) of
        None \<Rightarrow> w
      | Some pl \<Rightarrow> snd (create_task py cfg w (task_type task) pl now))"

text \<open>
  The \<open>except\<close> block of \<open>execute_task\<close> for the caught exception \<open>e\<close>. It ends in
  \<open>raise\<close>, so the outcome is always an exception: \<open>e\<close>, or the one that \<open>should_retry\<close>
  or a store call raised inside the block.
\<close>

definition on_failure ::
  "Settings \<Rightarrow> clock \<Rightarrow> real \<Rightarrow> 'v world \<Rightarrow> Task \<Rightarrow> exn \<Rightarrow> (exn + 'v) \<times> 'v world" where
  "on_failure cfg clk u w task e =
     (let h1 = record_failure (retry_handler w) (task_type task) (at_failure clk) in
      case should_retry cfg h1 task e (at_check clk) u of
        (Inl e', h2) \<Rightarrow> (Inl e', w\<lparr>retry_handler := h2\<rparr>)
      | (Inr (retry, delay), h2) \<Rightarrow>
          (let w1 = w\<lparr>retry_handler := h2\<rparr> in
           if retry then
             (case schedule_retry w1 task delay (at_finish clk) of
                Inl e' \<Rightarrow> (Inl e', w1)
              | Inr w2 \<Rightarrow>
                  (Inl e,
                   w2\<lparr>execution_stats := (execution_stats w2)
                        \<lparr>retried := retried (execution_stats w2) + 1\<rparr>\<rparr>))
           else
             (case update_task_status (task_queue w1) (id' task) FAILED None (Some (str_of e))
                     (at_finish clk) of
                Inl e' \<Rightarrow> (Inl e', w1)
              | Inr (t, tq') \<Rightarrow>
                  (Inl e,
                   w1\<lparr>task_queue := tq',
                      dead_letter_queue :=
                        add_dead_letter (dead_letter_queue w1) task e (at_dead_letter clk),
                      execution_stats := (execution_stats w1)
                        \<lparr>failed := failed (execution_stats w1) + 1\<rparr>\<rparr>))))"

definition execute_task ::
  "Settings \<Rightarrow> 'v python \<Rightarrow> 'v handlers \<Rightarrow> clock \<Rightarrow> real \<Rightarrow> 'v world \<Rightarrow> Task
     \<Rightarrow> (exn + 'v) \<times> 'v world" where
  "execute_task cfg py hs clk u w task =
     (let w0 = w\<lparr>execution_stats := (execution_stats w)
                   \<lparr>total_executed := total_executed (execution_stats w) + 1\<rparr>\<rparr>
      in case attempt py hs clk w0 task of
           (Inr r, w1) \<Rightarrow> (Inr r, w1)
         | (Inl e, w1) \<Rightarrow> on_failure cfg clk u w1 task e)"

section \<open>Enhanced worker: \<open>app/workers/enhanced_worker.py\<close>\<close>

text \<open>
  \<open>_process_task\<close> for one envelope: the row is loaded, the executor runs, and only a
  normal return reaches \<open>complete_task\<close> (the acknowledgement) and the counter; an
  exception is logged and swallowed.
\<close>

definition process_task ::
  "Settings \<Rightarrow> 'v python \<Rightarrow> 'v handlers \<Rightarrow> clock \<Rightarrow> real \<Rightarrow> 'v world \<Rightarrow> 'v task_data
     \<Rightarrow> 'v world" where
  "process_task cfg py hs clk u w task_data =
     (case get_task (task_queue w) (td_id task_data) of
        None \<Rightarrow> w
      | Some task \<Rightarrow>
          (case execute_task cfg py hs clk u w task of
             (Inr r, w') \<Rightarrow>
               w'\<lparr>redis_queue := complete_task (redis_queue w') (td_id task_data),
                  tasks_processed := tasks_processed w' + 1\<rparr>
           | (Inl e, w') \<Rightarrow> w'))"

section \<open>Requeue from the dead letter queue\<close>

text \<open>
  \<open>DeadLetterQueue.retry_dead_letter\<close>. \<open>task.retry_count = 0\<close> and
  \<open>task.status = TaskStatus.PENDING\<close> are assignments to the detached object returned by
  \<open>get_task\<close>; what reaches the table is \<open>update_task_status(task_id, PENDING)\<close>. The
  payload passed on is the snapshot's \<open>payload\<close>, a \<open>str\<close>.
\<close>

definition retry_dead_letter ::
  "'v python \<Rightarrow> Settings \<Rightarrow> 'v world \<Rightarrow> int \<Rightarrow> time \<Rightarrow> bool \<times> 'v world" where
  "retry_dead_letter py cfg w task_id now =
     (case map_of (dead_letter_queue w) task_id of
        None \<Rightarrow> (False, w)
      | Some dead_task \<Rightarrow>
          (case get_task (task_queue w) task_id of
             None \<Rightarrow> (False, w)
           | Some task \<Rightarrow>
               (case update_task_status (task_queue w) task_id PENDING None None now of
                  Inl e \<Rightarrow> (False, w)
                | Inr (t, tq') \<Rightarrow>
                    (case create_task py cfg (w\<lparr>task_queue := tq'\<rparr>) (task_type task)
                            (str_value py (dl_payload dead_task)) now of
                       (new_task, w1) \<Rightarrow>
                         (True,
                          w1\<lparr>dead_letter_queue :=
                               AList.delete task_id (dead_letter_queue w1)\<rparr>)))))"

section \<open>Submission endpoint: \<open>app/api/tasks.py\<close>\<close>

record 'v TaskRequest =
  req_task_type :: string
  req_payload :: 'v

definition valid_task_types :: "string list" where
  "valid_task_types =
     [''text_processing'', ''ai_summarization'', ''batch_processing'', ''image_processing'']"

text \<open>Python's rendering of a list of strings inside an f-string: \<open>['a', 'b']\<close>.\<close>

fun join_comma :: "string list \<Rightarrow> string" where
  "join_comma [] = []"
| "join_comma [s] = s"
| "join_comma (s # t # ss) = s @ '', '' @ join_comma (t # ss)"

definition repr_list :: "string list \<Rightarrow> string" where
  "repr_list ss = ''['' @ join_comma (map (\<lambda>s. [CHR 0x27] @ s @ [CHR 0x27]) ss) @ '']''"

text \<open>What is raised inside the endpoint's \<open>try\<close> block: a plain exception or an \<open>HTTPException\<close>.\<close>

datatype raised = Plain exn | Http http_exn

text \<open>
  The body of the \<open>try\<close> block of the \<open>POST /tasks/\<close> handler.
\<close>

definition create_task_try ::
  "'v python \<Rightarrow> Settings \<Rightarrow> 'v world \<Rightarrow> 'v TaskRequest \<Rightarrow> time \<Rightarrow> (raised + Task) \<times> 'v world" where
  "create_task_try py cfg w task_request now =
     (if req_task_type task_request \<notin> set valid_task_types
      then (Inl (Http (HTTPException 400
              (Literal (''Invalid task_type. Must be one of: '' @ repr_list valid_task_types)))), w)
      else
        (case create_task py cfg w (req_task_type task_request) (req_payload task_request) now of
           (task, w') \<Rightarrow> (Inr task, w')))"

text \<open>
  The whole handler: \<open>except Exception as e: raise HTTPException(status_code=500,
  detail=str(e))\<close> catches whatever the block raised, \<open>HTTPException\<close> included (it is a
  subclass of \<open>Exception\<close>). A normal return is answered with the decorator's
  \<open>status_code=201\<close> and the task's fields.
\<close>

definition create_task_endpoint ::
  "'v python \<Rightarrow> Settings \<Rightarrow> 'v world \<Rightarrow> 'v TaskRequest \<Rightarrow> time
     \<Rightarrow> (http_exn + int \<times> Task) \<times> 'v world" where
  "create_task_endpoint py cfg w task_request now =
     (case create_task_try py cfg w task_request now of
        (Inl (Plain e), w') \<Rightarrow> (Inl (HTTPException 500 (StrOfExn e)), w')
      | (Inl (Http h), w') \<Rightarrow> (Inl (HTTPException 500 (StrOfHttp h)), w')
      | (Inr task, w') \<Rightarrow> (Inr (201, task), w'))"

text \<open>The status code the client receives.\<close>

definition response_status :: "http_exn + int \<times> Task \<Rightarrow> int" where
  "response_status r = (case r of Inl h \<Rightarrow> status_code h | Inr (c, body) \<Rightarrow> c)"

section \<open>The invariant of the dead letter queue\<close>

text \<open>
  No key occurs twice among the items of \<open>dead_tasks\<close>, and every snapshot carries the
  key it is stored under.
\<close>

definition dlq_inv :: "dead_tasks \<Rightarrow> bool" where
  "dlq_inv dq \<longleftrightarrow> distinct (map fst dq) \<and> list_all (\<lambda>(k, e). dl_task_id e = k) dq"

section \<open>The row written by a status update\<close>

text \<open>
  The field values \<open>update_task_status\<close> leaves in a row \<open>t\<close>, written out once so that
  the theorems can name them.
\<close>

definition updated_row :: "Task \<Rightarrow> TaskStatus \<Rightarrow> string option \<Rightarrow> string option \<Rightarrow> time \<Rightarrow> Task" where
  "updated_row t st res err now =
     t\<lparr>status := st,
       result := (case res of None \<Rightarrow> result t | Some r \<Rightarrow> Some r),
       error_message := (case err of None \<Rightarrow> error_message t | Some m \<Rightarrow> Some m),
       started_at := (if st = RUNNING \<and> started_at t = None then Some now else started_at t),
       completed_at :=
         (if st = RUNNING \<and> started_at t = None then completed_at t
          else if st = COMPLETED \<or> st = FAILED then Some now else completed_at t)\<rparr>"

text \<open>Writing a row into the table and the cache, as every store method does on commit.\<close>

definition store_put :: "TaskQueue \<Rightarrow> int \<Rightarrow> Task \<Rightarrow> TaskQueue" where
  "store_put tq i t = tq\<lparr>table := (table tq)(i \<mapsto> t), tq_tasks := (tq_tasks tq)(i \<mapsto> t)\<rparr>"

section \<open>Concrete states used below\<close>

text \<open>
  A registry whose \<open>text_processing\<close> breaker has been tripped by five failures at
  time 10, starting from a fresh \<open>RetryHandler()\<close>.
\<close>

definition tripped :: RetryHandler where
  "tripped = run_calls RetryHandler_init (replicate 5 (RecordFailure ''text_processing'' 10))"

text \<open>
  A fresh registry after one failure of \<open>text_processing\<close>, and a run in which four
  more failures alternate with successes.
\<close>

definition one_failure :: RetryHandler where
  "one_failure = record_failure RetryHandler_init ''text_processing'' 1"

definition interleaved :: "breaker_call list" where
  "interleaved =
     [RecordSuccess ''text_processing'', RecordFailure ''text_processing'' 2,
      RecordSuccess ''text_processing'', RecordFailure ''text_processing'' 3,
      RecordSuccess ''text_processing'', RecordFailure ''text_processing'' 4,
      RecordSuccess ''text_processing'', RecordFailure ''text_processing'' 5,
      RecordSuccess ''text_processing'']"

text \<open>A running task that has been retried once, with the default cap of three.\<close>

definition rate_limited :: Task where
  "rate_limited =
     \<lparr>id' = 7, task_type = ''ai_summarization'', payload = ''{}'', status = RUNNING,
      result = None, error_message = None, retry_count = 1, max_retries = 3,
      created_at = Some 0, started_at = Some 1, completed_at = None\<rparr>"

text \<open>
  A toy codec in which a decoded value is represented by its JSON text, and handlers that
  always succeed or always fail with a connection error.
\<close>

definition py0 :: "string python" where
  "py0 = \<lparr>json_dumps = (\<lambda>v. v), json_loads = Some, str_value = (\<lambda>s. s)\<rparr>"

definition succeeding :: "string handlers" where
  "succeeding =
     \<lparr>process_text_with_errors = (\<lambda>t. Inr ''new''),
      ai_summarize_with_errors = (\<lambda>t. Inr ''new''),
      batch_process_with_errors = (\<lambda>t. Inr ''new''),
      process_image_with_errors = (\<lambda>t. Inr ''new'')\<rparr>"

definition failing :: "string handlers" where
  "failing =
     \<lparr>process_text_with_errors = (\<lambda>t. Inl (Exn ''ConnectionError'' ''down'')),
      ai_summarize_with_errors = (\<lambda>t. Inl (Exn ''ConnectionError'' ''down'')),
      batch_process_with_errors = (\<lambda>t. Inl (Exn ''ConnectionError'' ''down'')),
      process_image_with_errors = (\<lambda>t. Inl (Exn ''ConnectionError'' ''down''))\<rparr>"

definition clock0 :: clock where
  "clock0 = \<lparr>at_running = 10, at_finish = 11, at_failure = 12, at_check = 13,
     at_dead_letter = 14\<rparr>"

text \<open>Task 1 as submitted, as completed, and as failed after three retries.\<close>

definition task1 :: Task where
  "task1 =
     \<lparr>id' = 1, task_type = ''text_processing'', payload = ''{}'', status = PENDING,
      result = None, error_message = None, retry_count = 0, max_retries = 3,
      created_at = Some 0, started_at = None, completed_at = None\<rparr>"

definition task1_completed :: Task where
  "task1_completed =
     task1\<lparr>status := COMPLETED, result := Some ''old'', started_at := Some 1,
       completed_at := Some 2\<rparr>"

definition task1_failed :: Task where
  "task1_failed =
     task1\<lparr>status := FAILED, error_message := Some ''down'', retry_count := 3,
       started_at := Some 1, completed_at := Some 2\<rparr>"

text \<open>A store that holds one row, and a process state around it.\<close>

definition store_of :: "Task \<Rightarrow> TaskQueue" where
  "store_of t =
     \<lparr>table = [id' t \<mapsto> t], next_id = id' t + 1, tq_queue = [], tq_tasks = [id' t \<mapsto> t]\<rparr>"

definition world_of :: "Task \<Rightarrow> dead_tasks \<Rightarrow> string world" where
  "world_of t dq =
     \<lparr>task_queue = store_of t,
      redis_queue = \<lparr>task_queue_key = [], processing = {id' t}\<rparr>,
      retry_handler = RetryHandler_init,
      dead_letter_queue = dq,
      execution_stats = \<lparr>total_executed = 0, successful = 0, failed = 0, retried = 0\<rparr>,
      timers = [],
      tasks_processed = 0\<rparr>"

definition envelope1 :: "string task_data" where
  "envelope1 = \<lparr>td_id = 1, td_task_type = ''text_processing'', td_payload = ''{}'',
     td_created_at = Some 0\<rparr>"

text \<open>The dead letter queue after task 1 has been parked twice.\<close>

definition parked_twice :: dead_tasks where
  "parked_twice =
     add_dead_letter (add_dead_letter [] task1_failed (Exn ''TimeoutError'' ''first'') 20)
       task1_failed (Exn ''ConnectionError'' ''second'') 30"

text \<open>A value drawn for the jitter.\<close>

definition draw0 :: real where
  "draw0 = 1 / 4"

text \<open>
  The state after the worker has processed the envelope of task 1 with a failing handler;
  a process whose dead letter queue holds the failed task 1; and the requeue of that task.
\<close>

definition after_failure :: "string world" where
  "after_failure =
     process_task default_settings py0 failing clock0 draw0 (world_of task1 []) envelope1"

definition parked :: "string world" where
  "parked = world_of task1_failed parked_twice"

definition requeued :: "bool \<times> string world" where
  "requeued = retry_dead_letter py0 default_settings parked 1 50"







section \<open>Properties of the circuit-breaker registry\<close>

subsection \<open>Reading the registry after each call\<close>

lemma breaker_of_set_breaker:
  "breaker_of (set_breaker h k b) k' = (if k' = k then b else breaker_of h k')"
  by (simp add: breaker_of_def set_breaker_def)

lemma threshold_set_breaker [simp]: "failure_threshold (set_breaker h k b) = failure_threshold h"
  by (simp add: set_breaker_def)

lemma timeout_set_breaker [simp]: "recovery_timeout (set_breaker h k b) = recovery_timeout h"
  by (simp add: set_breaker_def)

lemma circuit_breakers_set_breaker:
  "circuit_breakers (set_breaker h k b) k' = (if k' = k then Some b else circuit_breakers h k')"
  by (simp add: set_breaker_def)

lemma breaker_of_Some: "circuit_breakers h k = Some b \<Longrightarrow> breaker_of h k = b"
  by (simp add: breaker_of_def)

lemma set_breaker_same: "circuit_breakers h k = Some b \<Longrightarrow> set_breaker h k b = h"
  by (simp add: set_breaker_def fun_upd_idem)

lemma breaker_of_record_failure:
  "breaker_of (record_failure h k t) k' =
     (if k' = k then
        (breaker_of h k)\<lparr>failures := failures (breaker_of h k) + 1, last_failure := Some t,
           state := (if failures (breaker_of h k) + 1 \<ge> failure_threshold h then Open
                     else state (breaker_of h k))\<rparr>
      else breaker_of h k')"
  by (auto simp add: record_failure_def Let_def breaker_of_set_breaker)

lemma circuit_breakers_record_failure_same:
  "circuit_breakers (record_failure h k t) k = Some (breaker_of (record_failure h k t) k)"
  by (simp add: record_failure_def Let_def breaker_of_def circuit_breakers_set_breaker)

lemma threshold_record_failure [simp]: "failure_threshold (record_failure h k t) = failure_threshold h"
  by (simp add: record_failure_def Let_def)

lemma breaker_of_check:
  "breaker_of (snd (check_circuit_breaker h k t)) k' =
     (if k' = k \<and> fst (check_circuit_breaker h k t) \<and> state (breaker_of h k) = Open
      then (breaker_of h k)\<lparr>state := HalfOpen\<rparr> else breaker_of h k')"
  by (auto simp add: check_circuit_breaker_def Let_def breaker_of_set_breaker split: option.splits)

lemma threshold_check [simp]:
  "failure_threshold (snd (check_circuit_breaker h k t)) = failure_threshold h"
  by (simp add: check_circuit_breaker_def Let_def split: option.splits)

lemma breaker_of_record_success:
  "breaker_of (record_success h k) k' =
     (if k' = k \<and> state (breaker_of h k) = HalfOpen
      then (breaker_of h k)\<lparr>state := Closed, failures := 0\<rparr> else breaker_of h k')"
proof (cases "circuit_breakers h k")
  case None
  then show ?thesis
    by (simp add: record_success_def breaker_of_def new_breaker_def)
next
  case (Some b)
  then have "breaker_of h k = b" by (rule breaker_of_Some)
  with Some show ?thesis
    by (simp add: record_success_def breaker_of_set_breaker)
qed

lemma threshold_record_success [simp]:
  "failure_threshold (record_success h k) = failure_threshold h"
  by (simp add: record_success_def split: option.splits)

lemma breaker_of_reset:
  "k' \<noteq> k \<Longrightarrow> breaker_of (reset_circuit_breaker h k) k' = breaker_of h k'"
  by (simp add: reset_circuit_breaker_def breaker_of_set_breaker split: option.splits)

lemma threshold_reset [simp]:
  "failure_threshold (reset_circuit_breaker h k) = failure_threshold h"
  by (simp add: reset_circuit_breaker_def split: option.splits)

lemma threshold_do_call [simp]: "failure_threshold (do_call h c) = failure_threshold h"
  by (cases c) simp_all

lemma threshold_run_calls [simp]: "failure_threshold (run_calls h cs) = failure_threshold h"
  unfolding run_calls_def by (induction cs arbitrary: h) simp_all

lemma failures_do_call:
  "\<not> (is_success_or_reset c \<and> call_kind c = k) \<Longrightarrow>
   failures (breaker_of (do_call h c) k) =
     failures (breaker_of h k) + (if is_failure c \<and> call_kind c = k then 1 else 0)"
  by (cases c) (auto simp add: breaker_of_record_failure breaker_of_check
      breaker_of_record_success breaker_of_reset)

lemma run_calls_Nil [simp]: "run_calls h [] = h"
  by (simp add: run_calls_def)

lemma run_calls_Cons [simp]: "run_calls h (c # cs) = run_calls (do_call h c) cs"
  by (simp add: run_calls_def)

lemma run_calls_append: "run_calls h (cs @ ds) = run_calls (run_calls h cs) ds"
  by (simp add: run_calls_def)

lemma failures_in_Nil [simp]: "failures_in k [] = 0"
  by (simp add: failures_in_def)

lemma failures_in_Cons:
  "failures_in k (c # cs) = (if is_failure c \<and> call_kind c = k then 1 else 0) + failures_in k cs"
  by (simp add: failures_in_def)

lemma failures_in_append: "failures_in k (cs @ ds) = failures_in k cs + failures_in k ds"
  by (simp add: failures_in_def)

lemma failures_run_calls:
  "\<forall>c\<in>set cs. \<not> (is_success_or_reset c \<and> call_kind c = k) \<Longrightarrow>
   failures (breaker_of (run_calls h cs) k) = failures (breaker_of h k) + int (failures_in k cs)"
proof (induction cs arbitrary: h)
  case Nil
  then show ?case by simp
next
  case (Cons c cs)
  have "failures (breaker_of (run_calls (do_call h c) cs) k) =
        failures (breaker_of (do_call h c) k) + int (failures_in k cs)"
    using Cons by simp
  moreover have "failures (breaker_of (do_call h c) k) =
      failures (breaker_of h k) + (if is_failure c \<and> call_kind c = k then 1 else 0)"
    using Cons.prems by (intro failures_do_call) simp
  ultimately show ?case by (simp add: failures_in_Cons)
qed

lemma set_breaker_twice: "set_breaker (set_breaker h k b1) k b2 = set_breaker h k b2"
  by (simp add: set_breaker_def)

lemma tripped_breaker:
  "circuit_breakers tripped ''text_processing'' =
     Some \<lparr>failures = 5, last_failure = Some 10, state = Open\<rparr>"
  by (simp add: tripped_def numeral_eq_Suc record_failure_def breaker_of_def set_breaker_def
      RetryHandler_init_def new_breaker_def)

lemma tripped_timeout: "recovery_timeout tripped = 60"
  by (simp add: tripped_def numeral_eq_Suc record_failure_def breaker_of_def set_breaker_def
      RetryHandler_init_def new_breaker_def)

subsection \<open>A burst of failures opens the breaker\<close>

text \<open>
  Claim C5. Take any registry in which the failure counter of kind \<open>k\<close> is not negative,
  and any run of calls that ends in \<open>record_failure\<close> for \<open>k\<close>, holds no
  \<open>record_success\<close> (and no manual reset) for \<open>k\<close>, and records at least
  \<open>failure_threshold\<close> failures for \<open>k\<close>. Breaker checks for \<open>k\<close> and calls for
  other kinds may be interleaved. After the run the breaker record of \<open>k\<close> exists, is
  in state OPEN, and its \<open>last_failure\<close> is the time of the last failure.
\<close>

theorem burst_opens_breaker:
  assumes nonneg: "0 \<le> failures (breaker_of h k)"
    and quiet: "\<forall>c\<in>set cs. \<not> (is_success_or_reset c \<and> call_kind c = k)"
    and burst: "failure_threshold h \<le> int (failures_in k (cs @ [RecordFailure k t]))"
  shows "\<exists>b. circuit_breakers (run_calls h (cs @ [RecordFailure k t])) k = Some b
           \<and> state b = Open \<and> last_failure b = Some t"
proof -
  let ?h = "run_calls h cs"
  have f: "failures (breaker_of ?h k) = failures (breaker_of h k) + int (failures_in k cs)"
    using quiet by (rule failures_run_calls)
  have "failures_in k (cs @ [RecordFailure k t]) = failures_in k cs + 1"
    by (simp add: failures_in_append failures_in_Cons)
  with burst f nonneg have reach: "failure_threshold ?h \<le> failures (breaker_of ?h k) + 1"
    by simp
  have run: "run_calls h (cs @ [RecordFailure k t]) = record_failure ?h k t"
    by (simp add: run_calls_append)
  have "state (breaker_of (record_failure ?h k t) k) = Open"
    and "last_failure (breaker_of (record_failure ?h k t) k) = Some t"
    using reach by (simp_all add: breaker_of_record_failure)
  then show ?thesis
    unfolding run using circuit_breakers_record_failure_same [of ?h k t] by blast
qed

text \<open>
  The theorem applied to a fresh \<open>RetryHandler()\<close> (threshold 5): five failures of
  \<open>text_processing\<close> with a breaker check and a success of another kind in between.
\<close>

theorem burst_opens_breaker_witness:
  "\<exists>b. circuit_breakers
          (run_calls RetryHandler_init
             ([RecordFailure ''text_processing'' 1, CheckBreaker ''text_processing'' 2,
               RecordFailure ''text_processing'' 3, RecordSuccess ''ai_summarization'',
               RecordFailure ''text_processing'' 4, RecordFailure ''text_processing'' 5]
              @ [RecordFailure ''text_processing'' 6])) ''text_processing'' = Some b
        \<and> state b = Open \<and> last_failure b = Some 6"
  using burst_opens_breaker [of RetryHandler_init "''text_processing''"
      "[RecordFailure ''text_processing'' 1, CheckBreaker ''text_processing'' 2,
        RecordFailure ''text_processing'' 3, RecordSuccess ''ai_summarization'',
        RecordFailure ''text_processing'' 4, RecordFailure ''text_processing'' 5]" 6]
  by (simp add: breaker_of_def RetryHandler_init_def new_breaker_def failures_in_def)

subsection \<open>Recovery of an open breaker\<close>

text \<open>
  Claim C6 as stated fails: once the breaker is HALF_OPEN, \<open>_check_circuit_breaker\<close> falls
  through to its last line, \<open>return True  # Circuit is closed or half-open\<close>, so the
  second check after the recovery timeout grants a probe as well.
\<close>

theorem second_probe_counterexample:
  "state (breaker_of tripped ''text_processing'') = Open
   \<and> fst (check_circuit_breaker tripped ''text_processing'' 100)
   \<and> fst (check_circuit_breaker (snd (check_circuit_breaker tripped ''text_processing'' 100))
        ''text_processing'' 101)"
  by (simp add: check_circuit_breaker_def breaker_of_def tripped_breaker tripped_timeout
      set_breaker_def)

text \<open>
  Claim C6, amended. For a stored breaker in state OPEN whose \<open>last_failure\<close> is set
  and non-zero, once the clock reading exceeds it by more than \<open>recovery_timeout\<close> the
  next check returns true and stores state HALF_OPEN; every further check, at any time,
  returns true again and leaves the registry as it is; and \<open>record_success\<close> then
  stores state CLOSED with \<open>failures = 0\<close>.
\<close>

theorem half_open_admits_every_probe:
  assumes present: "circuit_breakers h k = Some b"
    and is_open: "state b = Open"
    and last: "last_failure b = Some t"
    and truthy: "t \<noteq> 0"
    and waited: "now - t > recovery_timeout h"
  shows "check_circuit_breaker h k now = (True, set_breaker h k (b\<lparr>state := HalfOpen\<rparr>))
       \<and> check_circuit_breaker (set_breaker h k (b\<lparr>state := HalfOpen\<rparr>)) k now' =
           (True, set_breaker h k (b\<lparr>state := HalfOpen\<rparr>))
       \<and> record_success (set_breaker h k (b\<lparr>state := HalfOpen\<rparr>)) k =
           set_breaker h k (b\<lparr>state := Closed, failures := 0\<rparr>)"
proof -
  have b: "breaker_of h k = b"
    using present by (rule breaker_of_Some)
  have first: "check_circuit_breaker h k now = (True, set_breaker h k (b\<lparr>state := HalfOpen\<rparr>))"
    using is_open last truthy waited by (simp add: check_circuit_breaker_def b)
  have again: "check_circuit_breaker (set_breaker h k (b\<lparr>state := HalfOpen\<rparr>)) k now' =
           (True, set_breaker h k (b\<lparr>state := HalfOpen\<rparr>))"
    by (simp add: check_circuit_breaker_def breaker_of_set_breaker set_breaker_twice)
  have closes: "record_success (set_breaker h k (b\<lparr>state := HalfOpen\<rparr>)) k =
           set_breaker h k (b\<lparr>state := Closed, failures := 0\<rparr>)"
    by (simp add: record_success_def circuit_breakers_set_breaker set_breaker_twice)
  from first again closes show ?thesis by simp
qed

theorem half_open_admits_every_probe_witness:
  "check_circuit_breaker tripped ''text_processing'' 100 =
     (True, set_breaker tripped ''text_processing''
        \<lparr>failures = 5, last_failure = Some 10, state = HalfOpen\<rparr>)
   \<and> check_circuit_breaker (set_breaker tripped ''text_processing''
        \<lparr>failures = 5, last_failure = Some 10, state = HalfOpen\<rparr>) ''text_processing'' 101 =
     (True, set_breaker tripped ''text_processing''
        \<lparr>failures = 5, last_failure = Some 10, state = HalfOpen\<rparr>)
   \<and> record_success (set_breaker tripped ''text_processing''
        \<lparr>failures = 5, last_failure = Some 10, state = HalfOpen\<rparr>) ''text_processing'' =
     set_breaker tripped ''text_processing'' \<lparr>failures = 0, last_failure = Some 10, state = Closed\<rparr>"
  using half_open_admits_every_probe [OF tripped_breaker, of 10 100 101]
  by (simp add: tripped_timeout)

subsection \<open>Successes while the breaker is closed\<close>

lemma record_success_not_half_open:
  "state (breaker_of h k) \<noteq> HalfOpen \<Longrightarrow> record_success h k = h"
  by (simp add: record_success_def breaker_of_def split: option.splits)

lemma failure_or_success_step:
  assumes "is_failure_or_success c" "call_kind c = k" "state (breaker_of h k) \<noteq> HalfOpen"
  shows "failures (breaker_of (do_call h c) k) =
           failures (breaker_of h k) + (if is_failure c then 1 else 0)
       \<and> state (breaker_of (do_call h c) k) \<noteq> HalfOpen
       \<and> (state (breaker_of h k) = Open \<longrightarrow> state (breaker_of (do_call h c) k) = Open)
       \<and> (is_failure c \<and> failure_threshold h \<le> failures (breaker_of h k) + 1
            \<longrightarrow> state (breaker_of (do_call h c) k) = Open)"
  using assms
  by (cases c) (auto simp add: breaker_of_record_failure record_success_not_half_open)

lemma interleaved_run:
  assumes "\<forall>c\<in>set cs. is_failure_or_success c \<and> call_kind c = k"
    and "state (breaker_of h k) \<noteq> HalfOpen"
  shows "failures (breaker_of (run_calls h cs) k) = failures (breaker_of h k) + int (failures_in k cs)
       \<and> state (breaker_of (run_calls h cs) k) \<noteq> HalfOpen
       \<and> (0 < failures_in k cs \<and> failure_threshold h \<le> failures (breaker_of h k) + int (failures_in k cs)
            \<longrightarrow> state (breaker_of (run_calls h cs) k) = Open)"
  using assms
proof (induction cs rule: rev_induct)
  case Nil
  then show ?case by simp
next
  case (snoc c cs)
  let ?h = "run_calls h cs"
  have ih: "failures (breaker_of ?h k) = failures (breaker_of h k) + int (failures_in k cs)"
    "state (breaker_of ?h k) \<noteq> HalfOpen"
    "0 < failures_in k cs \<and> failure_threshold h \<le> failures (breaker_of h k) + int (failures_in k cs)
            \<longrightarrow> state (breaker_of ?h k) = Open"
    using snoc by simp_all
  have c: "is_failure_or_success c" "call_kind c = k"
    using snoc.prems by simp_all
  note step = failure_or_success_step [OF c ih(2)]
  have run: "run_calls h (cs @ [c]) = do_call ?h c"
    by (simp add: run_calls_append)
  have cnt: "failures_in k (cs @ [c]) = failures_in k cs + (if is_failure c then 1 else 0)"
    using c by (simp add: failures_in_append failures_in_Cons)
  show ?case
  proof (cases "is_failure c")
    case True
    with step ih cnt show ?thesis unfolding run by simp
  next
    case False
    with step ih cnt show ?thesis unfolding run by auto
  qed
qed

lemma zeroed_only_by:
  assumes "circuit_breakers h k = Some b" "0 < failures b"
    "circuit_breakers (do_call h c) k = Some b'" "failures b' = 0"
  shows "c = ResetBreaker k \<or> (c = RecordSuccess k \<and> state b = HalfOpen)"
proof -
  have b: "breaker_of h k = b" using assms(1) by (rule breaker_of_Some)
  have b': "breaker_of (do_call h c) k = b'" using assms(3) by (rule breaker_of_Some)
  show ?thesis
  proof (cases c)
    case (RecordFailure k' t)
    with b b' assms(2,4) show ?thesis
      by (auto simp add: breaker_of_record_failure split: if_splits)
  next
    case (RecordSuccess k')
    with b b' assms(2,4) show ?thesis
      by (auto simp add: breaker_of_record_success split: if_splits)
  next
    case (CheckBreaker k' t)
    with b b' assms(2,4) show ?thesis
      by (auto simp add: breaker_of_check split: if_splits)
  next
    case (ResetBreaker k')
    with b b' assms(2,4) show ?thesis
      by (cases "k' = k") (auto simp add: breaker_of_reset)
  qed
qed

lemma one_failure_breaker:
  "circuit_breakers one_failure ''text_processing'' =
     Some \<lparr>failures = 1, last_failure = Some 1, state = Closed\<rparr>"
  by (simp add: one_failure_def record_failure_def breaker_of_def set_breaker_def
      RetryHandler_init_def new_breaker_def)

lemma one_failure_threshold: "failure_threshold one_failure = 5"
  by (simp add: one_failure_def RetryHandler_init_def)

text \<open>
  Claim C9. (1) For a stored breaker in state CLOSED, \<open>record_success\<close> returns the
  registry unchanged, so the failures counter is not reset. (2) If one call of the
  registry's interface takes the counter of kind \<open>k\<close> from a positive value to zero,
  that call is a manual reset of \<open>k\<close> or a \<open>record_success\<close> for \<open>k\<close> made in state
  HALF_OPEN. (3) From a closed breaker, a run that mixes failures and successes of
  \<open>k\<close> in any order adds the number of failures to the counter, and the breaker is OPEN
  at the end when the run holds a failure and the counter has reached
  \<open>failure_threshold\<close>.
\<close>

theorem success_while_closed_keeps_failures:
  "(circuit_breakers h k = Some b \<and> state b = Closed \<longrightarrow> record_success h k = h)
 \<and> (circuit_breakers h k = Some b \<and> 0 < failures b
      \<and> circuit_breakers (do_call h c) k = Some b' \<and> failures b' = 0
     \<longrightarrow> c = ResetBreaker k \<or> (c = RecordSuccess k \<and> state b = HalfOpen))
 \<and> ((\<forall>c\<in>set cs. is_failure_or_success c \<and> call_kind c = k)
      \<and> state (breaker_of h k) = Closed
     \<longrightarrow> failures (breaker_of (run_calls h cs) k)
           = failures (breaker_of h k) + int (failures_in k cs)
       \<and> (0 < failures_in k cs
           \<and> failure_threshold h \<le> failures (breaker_of h k) + int (failures_in k cs)
          \<longrightarrow> state (breaker_of (run_calls h cs) k) = Open))"
proof (intro conjI impI)
  assume "circuit_breakers h k = Some b \<and> state b = Closed"
  then show "record_success h k = h"
    by (simp add: record_success_def)
next
  assume "circuit_breakers h k = Some b \<and> 0 < failures b
      \<and> circuit_breakers (do_call h c) k = Some b' \<and> failures b' = 0"
  then show "c = ResetBreaker k \<or> (c = RecordSuccess k \<and> state b = HalfOpen)"
    using zeroed_only_by by blast
next
  assume a: "(\<forall>c\<in>set cs. is_failure_or_success c \<and> call_kind c = k)
      \<and> state (breaker_of h k) = Closed"
  then have q: "\<forall>c\<in>set cs. is_failure_or_success c \<and> call_kind c = k"
    and s: "state (breaker_of h k) \<noteq> HalfOpen" by simp_all
  from interleaved_run [OF q s]
  show "failures (breaker_of (run_calls h cs) k)
           = failures (breaker_of h k) + int (failures_in k cs)" by blast
  assume "0 < failures_in k cs
           \<and> failure_threshold h \<le> failures (breaker_of h k) + int (failures_in k cs)"
  with interleaved_run [OF q s]
  show "state (breaker_of (run_calls h cs) k) = Open" by blast
qed

theorem success_while_closed_keeps_failures_witness:
  "record_success one_failure ''text_processing'' = one_failure
 \<and> failures (breaker_of (run_calls one_failure interleaved) ''text_processing'') = 5
 \<and> state (breaker_of (run_calls one_failure interleaved) ''text_processing'') = Open"
proof -
  let ?b = "\<lparr>failures = 1, last_failure = Some 1, state = Closed\<rparr>"
  have b: "breaker_of one_failure ''text_processing'' = ?b"
    using one_failure_breaker by (rule breaker_of_Some)
  have calls: "\<forall>c\<in>set interleaved. is_failure_or_success c \<and> call_kind c = ''text_processing''"
    by (simp add: interleaved_def)
  have cnt: "failures_in ''text_processing'' interleaved = 4"
    by (simp add: interleaved_def failures_in_def)
  from success_while_closed_keeps_failures [of one_failure "''text_processing''" ?b
      "ResetBreaker ''text_processing''" new_breaker interleaved]
  show ?thesis
    using one_failure_breaker b calls cnt one_failure_threshold by simp
qed

section \<open>Properties of float rounding\<close>


























section \<open>Properties of the retry policy\<close>








subsection \<open>The jitter branch on concrete inputs\<close>




lemma pow2_pos: "(2::real) powr real_of_int (int n) = 2 ^ n"
  by (simp add: powr_realpow)




lemma class_rate_limit: "class_name (Exn ''RateLimitError'' m) \<in> {''RateLimitError'', ''TooManyRequestsError''}"
  by simp

lemma rate_limited_allowed:
  "fst (check_circuit_breaker RetryHandler_init (task_type (rate_limited\<lparr>retry_count := n, max_retries := k\<rparr>)) now)"
  "fst (check_circuit_breaker RetryHandler_init (task_type rate_limited) now)"
  by (simp_all add: check_circuit_breaker_def breaker_of_def RetryHandler_init_def new_breaker_def)










section \<open>Properties of the dead letter queue\<close>

lemma list_all_update:
  "list_all P al \<Longrightarrow> P (k, v) \<Longrightarrow> list_all P (AList.update k v al)"
  by (induction al) auto

lemma list_all_delete: "list_all P al \<Longrightarrow> list_all P (AList.delete k al)"
  by (simp add: AList.delete_eq list_all_iff)

lemma dlq_inv_delete: "dlq_inv dq \<Longrightarrow> dlq_inv (AList.delete k dq)"
  by (simp add: dlq_inv_def distinct_delete list_all_delete)

lemma dlq_inv_deletes: "dlq_inv dq \<Longrightarrow> dlq_inv (foldl (\<lambda>d k. AList.delete k d) dq ks)"
  by (induction ks arbitrary: dq) (simp_all add: dlq_inv_delete)

lemma dlq_inv_add: "dlq_inv dq \<Longrightarrow> dlq_inv (add_dead_letter dq task error now)"
  by (simp add: dlq_inv_def add_dead_letter_def distinct_update list_all_update)

lemma dlq_inv_purge: "dlq_inv dq \<Longrightarrow> dlq_inv (snd (purge_dead_letters dq tt hours now))"
  by (simp add: purge_dead_letters_def Let_def dlq_inv_deletes)

lemma dlq_retry_dead_letter:
  "dead_letter_queue (snd (retry_dead_letter py cfg w task_id now)) = dead_letter_queue w
   \<or> dead_letter_queue (snd (retry_dead_letter py cfg w task_id now)) =
       AList.delete task_id (dead_letter_queue w)"
  by (simp add: retry_dead_letter_def create_task_def Let_def
      split: option.splits sum.splits prod.splits)

lemma dlq_inv_retry:
  "dlq_inv (dead_letter_queue w) \<Longrightarrow>
   dlq_inv (dead_letter_queue (snd (retry_dead_letter py cfg w task_id now)))"
  using dlq_retry_dead_letter [of py cfg w task_id now] by (auto simp add: dlq_inv_delete)

lemma map_of_add_dead_letter:
  "map_of (add_dead_letter dq task error now) (id' task) =
     Some \<lparr>dl_task_id = id' task, dl_task_type = task_type task, dl_payload = payload task,
           dl_error_message = str_of error, dl_error_type = class_name error,
           dl_retry_count = retry_count task, dl_max_retries = max_retries task,
           dl_created_at = created_at task, failed_at = now\<rparr>"
  by (simp add: add_dead_letter_def update_conv')

lemma keys_add_dead_letter:
  "map fst (add_dead_letter dq task error now) =
     (if id' task \<in> set (map fst dq) then map fst dq else map fst dq @ [id' task])"
  by (simp add: add_dead_letter_def update_keys)

lemma dlq_inv_ids: "dlq_inv dq \<Longrightarrow> map dl_task_id (map snd dq) = map fst dq"
  by (induction dq) (auto simp add: dlq_inv_def)

lemma dlq_inv_listing:
  assumes "dlq_inv dq"
  shows "distinct (map dl_task_id (get_dead_letters dq tt))"
proof -
  have "distinct (map fst dq)"
    using assms by (simp add: dlq_inv_def)
  then have d: "distinct (map dl_task_id (map snd dq))"
    by (simp only: dlq_inv_ids [OF assms])
  show ?thesis
  proof (cases "type_filter tt")
    case None
    with d show ?thesis by (simp add: get_dead_letters_def)
  next
    case (Some s)
    with d show ?thesis
      by (simp add: get_dead_letters_def distinct_map_filter)
  qed
qed

lemma length_add_dead_letter:
  "length (add_dead_letter dq task error now) =
     (if id' task \<in> fst ` set dq then length dq else length dq + 1)"
proof -
  have "length (map fst (add_dead_letter dq task error now)) =
     (if id' task \<in> fst ` set dq then length dq else length dq + 1)"
    by (simp only: keys_add_dead_letter) simp
  then show ?thesis by simp
qed

lemma parked_twice_eq:
  "parked_twice =
     [(1, \<lparr>dl_task_id = 1, dl_task_type = ''text_processing'', dl_payload = ''{}'',
           dl_error_message = ''second'', dl_error_type = ''ConnectionError'',
           dl_retry_count = 3, dl_max_retries = 3, dl_created_at = Some 0, failed_at = 30\<rparr>)]"
  by (simp add: parked_twice_def add_dead_letter_def task1_failed_def task1_def)

text \<open>
  Claim C10. The dead letter queue holds at most one entry per task id, and every entry
  carries the key it is stored under: the invariant holds for the empty queue and is
  preserved by \<open>add_dead_letter\<close>, by \<open>purge_dead_letters\<close> and by \<open>retry_dead_letter\<close>
  (the requeue). Adding a task whose id is present replaces the snapshot, so the entry
  found under the id afterwards is the one just built and the number of entries grows
  only for a new id. Under the invariant no listing returns two entries with one task id.
\<close>

theorem dead_letter_queue_one_entry_per_task:
  assumes inv: "dlq_inv dq" and inv_w: "dlq_inv (dead_letter_queue w)"
  shows "dlq_inv []
       \<and> dlq_inv (add_dead_letter dq task error now)
       \<and> map_of (add_dead_letter dq task error now) (id' task) =
           Some \<lparr>dl_task_id = id' task, dl_task_type = task_type task, dl_payload = payload task,
                 dl_error_message = str_of error, dl_error_type = class_name error,
                 dl_retry_count = retry_count task, dl_max_retries = max_retries task,
                 dl_created_at = created_at task, failed_at = now\<rparr>
       \<and> length (add_dead_letter dq task error now) =
           (if id' task \<in> fst ` set dq then length dq else length dq + 1)
       \<and> dlq_inv (snd (purge_dead_letters dq tt hours now))
       \<and> dlq_inv (dead_letter_queue (snd (retry_dead_letter py cfg w task_id now)))
       \<and> distinct (map dl_task_id (get_dead_letters dq tt))"
proof -
  have "dlq_inv []" by (simp add: dlq_inv_def)
  moreover note dlq_inv_add [OF inv] map_of_add_dead_letter length_add_dead_letter
    dlq_inv_purge [OF inv] dlq_inv_retry [OF inv_w] dlq_inv_listing [OF inv]
  ultimately show ?thesis by blast
qed

theorem dead_letter_queue_one_entry_per_task_witness:
  "dlq_inv parked_twice
 \<and> length parked_twice = 1
 \<and> dlq_inv (add_dead_letter parked_twice task1_failed (Exn ''TimeoutError'' ''third'') 100000)
 \<and> length (add_dead_letter parked_twice task1_failed (Exn ''TimeoutError'' ''third'') 100000) = 1
 \<and> map_option dl_error_message
      (map_of (add_dead_letter parked_twice task1_failed (Exn ''TimeoutError'' ''third'') 100000) 1)
     = Some ''third''
 \<and> dlq_inv (snd (purge_dead_letters parked_twice (Some ''text_processing'') 24 100000))
 \<and> dlq_inv (dead_letter_queue (snd (retry_dead_letter py0 default_settings
      (world_of task1_failed parked_twice) 1 100000)))
 \<and> distinct (map dl_task_id (get_dead_letters parked_twice (Some ''text_processing'')))"
proof -
  have inv: "dlq_inv parked_twice"
    by (simp add: parked_twice_eq dlq_inv_def)
  have inv_w: "dlq_inv (dead_letter_queue (world_of task1_failed parked_twice))"
    using inv by (simp add: world_of_def)
  have len: "length parked_twice = 1"
    by (simp add: parked_twice_eq)
  have key: "id' task1_failed = 1" "id' task1_failed \<in> fst ` set parked_twice"
    by (simp_all add: parked_twice_eq task1_failed_def task1_def)
  from dead_letter_queue_one_entry_per_task [OF inv inv_w, of task1_failed
      "Exn ''TimeoutError'' ''third''" 100000 "Some ''text_processing''" 24 py0
      default_settings 1]
  show ?thesis
    using inv len key by simp
qed

section \<open>Properties of the task store\<close>

lemma update_task_status_absent:
  "table tq i = None \<Longrightarrow>
   update_task_status tq i st res err now =
     Inl (Exn ''ValueError'' (''Task '' @ str_int i @ '' not found''))"
  by (simp add: update_task_status_def)

lemma update_task_status_present:
  "table tq i = Some t \<Longrightarrow>
   update_task_status tq i st res err now =
     Inr (updated_row t st res err now,
          tq\<lparr>table := (table tq)(i \<mapsto> updated_row t st res err now),
             tq_tasks := (tq_tasks tq)(i \<mapsto> updated_row t st res err now)\<rparr>)"
  by (cases t; cases res; cases err)
    (auto simp add: update_task_status_def updated_row_def Let_def)

lemma updated_row_again:
  "updated_row (updated_row t st res err now) st res err now' =
     (if st = COMPLETED \<or> st = FAILED
      then (updated_row t st res err now)\<lparr>completed_at := Some now'\<rparr>
      else updated_row t st res err now)"
  by (cases t; cases res; cases err) (auto simp add: updated_row_def)

lemma store_update_twice:
  "tq\<lparr>table := (table tq)(i \<mapsto> a), tq_tasks := (tq_tasks tq)(i \<mapsto> a)\<rparr>
     \<lparr>table := (table (tq\<lparr>table := (table tq)(i \<mapsto> a), tq_tasks := (tq_tasks tq)(i \<mapsto> a)\<rparr>))(i \<mapsto> a),
      tq_tasks := (tq_tasks (tq\<lparr>table := (table tq)(i \<mapsto> a), tq_tasks := (tq_tasks tq)(i \<mapsto> a)\<rparr>))(i \<mapsto> a)\<rparr>
   = tq\<lparr>table := (table tq)(i \<mapsto> a), tq_tasks := (tq_tasks tq)(i \<mapsto> a)\<rparr>"
  by simp

lemma store_of_task1_completed: "table (store_of task1_completed) 1 = Some task1_completed"
  by (simp add: store_of_def task1_completed_def task1_def)

text \<open>
  Claim C4 as stated fails. \<open>update_task_status\<close> has no transition check: a COMPLETED task
  is set back to PENDING without an error (the requeue from the dead letter queue relies
  on FAILED to PENDING). And a repeated COMPLETED update is not a no-op: it overwrites
  \<open>completed_at\<close> with the new clock reading.
\<close>

theorem illegal_transition_counterexample:
  "(case update_task_status (store_of task1_completed) 1 PENDING None None 50 of
      Inl e \<Rightarrow> False
    | Inr (t, tq) \<Rightarrow> status t = PENDING \<and> map_option status (table tq 1) = Some PENDING)
 \<and> (case update_task_status (store_of task1_completed) 1 COMPLETED (Some ''old'') None 50 of
      Inl e \<Rightarrow> False
    | Inr (t, tq) \<Rightarrow> t \<noteq> task1_completed \<and> completed_at task1_completed = Some 2
         \<and> completed_at t = Some 50)"
proof -
  note upd = update_task_status_present [OF store_of_task1_completed]
  have "status (updated_row task1_completed PENDING None None 50) = PENDING"
    by (simp add: updated_row_def)
  moreover have "updated_row task1_completed COMPLETED (Some ''old'') None 50 \<noteq> task1_completed"
    "completed_at task1_completed = Some 2"
    "completed_at (updated_row task1_completed COMPLETED (Some ''old'') None 50) = Some 50"
    by (simp_all add: updated_row_def task1_completed_def task1_def)
  ultimately show ?thesis
    by (simp add: upd)
qed

text \<open>
  Claim C4, amended. For an id that is not in the table \<open>update_task_status\<close> raises
  \<open>ValueError\<close>, its only error. For a stored task it accepts every requested status:
  the row returned and stored has that status. Repeating the identical update returns
  the same row and leaves the store as it is when the status is PENDING, RUNNING or
  RETRYING; when the status is COMPLETED or FAILED the repeat changes \<open>completed_at\<close>,
  and nothing else, to the clock reading of the repeat.
\<close>

theorem update_task_status_accepts_every_status:
  "(table tq i = None \<longrightarrow>
      update_task_status tq i st res err now =
        Inl (Exn ''ValueError'' (''Task '' @ str_int i @ '' not found'')))
 \<and> (table tq i = Some t \<longrightarrow>
      (\<exists>t1 tq1. update_task_status tq i st res err now = Inr (t1, tq1)
         \<and> status t1 = st \<and> table tq1 i = Some t1
         \<and> update_task_status tq1 i st res err now' =
             (if st = COMPLETED \<or> st = FAILED
              then Inr (t1\<lparr>completed_at := Some now'\<rparr>,
                        tq1\<lparr>table := (table tq1)(i \<mapsto> t1\<lparr>completed_at := Some now'\<rparr>),
                            tq_tasks := (tq_tasks tq1)(i \<mapsto> t1\<lparr>completed_at := Some now'\<rparr>)\<rparr>)
              else Inr (t1, tq1))))"
proof (intro conjI impI)
  assume "table tq i = None"
  then show "update_task_status tq i st res err now =
        Inl (Exn ''ValueError'' (''Task '' @ str_int i @ '' not found''))"
    by (rule update_task_status_absent)
next
  assume present: "table tq i = Some t"
  let ?t1 = "updated_row t st res err now"
  let ?tq1 = "tq\<lparr>table := (table tq)(i \<mapsto> ?t1), tq_tasks := (tq_tasks tq)(i \<mapsto> ?t1)\<rparr>"
  have first: "update_task_status tq i st res err now = Inr (?t1, ?tq1)"
    using present by (rule update_task_status_present)
  have st: "status ?t1 = st" by (simp add: updated_row_def)
  have stored: "table ?tq1 i = Some ?t1" by simp
  have second: "update_task_status ?tq1 i st res err now' =
      Inr (updated_row ?t1 st res err now',
           ?tq1\<lparr>table := (table ?tq1)(i \<mapsto> updated_row ?t1 st res err now'),
                tq_tasks := (tq_tasks ?tq1)(i \<mapsto> updated_row ?t1 st res err now')\<rparr>)"
    using stored by (rule update_task_status_present)
  have again: "update_task_status ?tq1 i st res err now' =
             (if st = COMPLETED \<or> st = FAILED
              then Inr (?t1\<lparr>completed_at := Some now'\<rparr>,
                        ?tq1\<lparr>table := (table ?tq1)(i \<mapsto> ?t1\<lparr>completed_at := Some now'\<rparr>),
                            tq_tasks := (tq_tasks ?tq1)(i \<mapsto> ?t1\<lparr>completed_at := Some now'\<rparr>)\<rparr>)
              else Inr (?t1, ?tq1))"
  proof (cases "st = COMPLETED \<or> st = FAILED")
    case True
    then show ?thesis
      unfolding second by (simp only: updated_row_again if_True)
  next
    case False
    then have same: "updated_row ?t1 st res err now' = ?t1"
      by (simp only: updated_row_again if_False)
    show ?thesis
      unfolding second same using False by (simp only: store_update_twice if_False)
  qed
  from first st stored again
  show "\<exists>t1 tq1. update_task_status tq i st res err now = Inr (t1, tq1)
         \<and> status t1 = st \<and> table tq1 i = Some t1
         \<and> update_task_status tq1 i st res err now' =
             (if st = COMPLETED \<or> st = FAILED
              then Inr (t1\<lparr>completed_at := Some now'\<rparr>,
                        tq1\<lparr>table := (table tq1)(i \<mapsto> t1\<lparr>completed_at := Some now'\<rparr>),
                            tq_tasks := (tq_tasks tq1)(i \<mapsto> t1\<lparr>completed_at := Some now'\<rparr>)\<rparr>)
              else Inr (t1, tq1))"
    by blast
qed

theorem update_task_status_accepts_every_status_witness:
  "update_task_status (store_of task1_completed) 2 RUNNING None None 50 =
     Inl (Exn ''ValueError'' ''Task 2 not found'')
 \<and> (\<exists>t1 tq1. update_task_status (store_of task1_completed) 1 PENDING None None 50 = Inr (t1, tq1)
       \<and> status t1 = PENDING \<and> table tq1 1 = Some t1
       \<and> update_task_status tq1 1 PENDING None None 60 = Inr (t1, tq1))"
proof -
  have absent: "table (store_of task1_completed) 2 = None"
    by (simp add: store_of_def task1_completed_def task1_def)
  have two: "str_int 2 = ''2''"
    by code_simp
  from update_task_status_accepts_every_status [of "store_of task1_completed" 2 RUNNING None None 50
      task1_completed 60]
    update_task_status_accepts_every_status [of "store_of task1_completed" 1 PENDING None None 50
      task1_completed 60]
  show ?thesis
    using absent store_of_task1_completed two by simp
qed

section \<open>Properties of the executor and the worker\<close>

lemma update_task_status_put:
  "table tq i = Some t \<Longrightarrow>
   update_task_status tq i st res err now =
     Inr (updated_row t st res err now, store_put tq i (updated_row t st res err now))"
  by (simp add: update_task_status_present store_put_def)

lemma table_store_put: "table (store_put tq i t) j = (if j = i then Some t else table tq j)"
  by (simp add: store_put_def)

lemma status_updated_row [simp]: "status (updated_row t st res err now) = st"
  by (simp add: updated_row_def)

lemma attempt_success:
  assumes row: "table (task_queue w) (id' task) = Some t"
    and ok: "run_handler hs task = Inr r"
  shows "attempt py hs clk w task =
     (Inr r,
      w\<lparr>task_queue :=
          store_put (store_put (task_queue w) (id' task)
              (updated_row t RUNNING None None (at_running clk))) (id' task)
            (updated_row (updated_row t RUNNING None None (at_running clk)) COMPLETED
               (Some (json_dumps py r)) None (at_finish clk)),
        retry_handler := record_success (retry_handler w) (task_type task),
        execution_stats := (execution_stats w)
          \<lparr>successful := successful (execution_stats w) + 1\<rparr>\<rparr>)"
proof -
  let ?t1 = "updated_row t RUNNING None None (at_running clk)"
  let ?tq1 = "store_put (task_queue w) (id' task) ?t1"
  have one: "update_task_status (task_queue w) (id' task) RUNNING None None (at_running clk) =
      Inr (?t1, ?tq1)"
    using row by (rule update_task_status_put)
  have "table ?tq1 (id' task) = Some ?t1"
    by (simp add: table_store_put)
  then have two: "update_task_status ?tq1 (id' task) COMPLETED (Some (json_dumps py r)) None
      (at_finish clk) =
      Inr (updated_row ?t1 COMPLETED (Some (json_dumps py r)) None (at_finish clk),
           store_put ?tq1 (id' task)
             (updated_row ?t1 COMPLETED (Some (json_dumps py r)) None (at_finish clk)))"
    by (rule update_task_status_put)
  show ?thesis
    unfolding attempt_def one by (simp add: ok two)
qed

lemma attempt_failure:
  assumes row: "table (task_queue w) (id' task) = Some t"
    and bad: "run_handler hs task = Inl e"
  shows "attempt py hs clk w task =
     (Inl e,
      w\<lparr>task_queue := store_put (task_queue w) (id' task)
          (updated_row t RUNNING None None (at_running clk))\<rparr>)"
proof -
  have one: "update_task_status (task_queue w) (id' task) RUNNING None None (at_running clk) =
      Inr (updated_row t RUNNING None None (at_running clk),
           store_put (task_queue w) (id' task) (updated_row t RUNNING None None (at_running clk)))"
    using row by (rule update_task_status_put)
  show ?thesis
    unfolding attempt_def one by (simp add: bad)
qed

lemma failures_should_retry:
  "failures (breaker_of (snd (should_retry cfg h task e now u)) k) = failures (breaker_of h k)"
proof (cases "retry_count task \<ge> max_retries task")
  case True
  then show ?thesis by (simp add: should_retry_def)
next
  case False
  obtain b h' where c: "check_circuit_breaker h (task_type task) now = (b, h')"
    by (cases "check_circuit_breaker h (task_type task) now")
  have "h' = snd (check_circuit_breaker h (task_type task) now)"
    using c by simp
  then have "failures (breaker_of h' k) = failures (breaker_of h k)"
    by (simp add: breaker_of_check)
  with False c show ?thesis
    by (cases b) (simp_all add: should_retry_def split: sum.splits)
qed

lemma on_failure_outcome:
  assumes row: "table (task_queue w) (id' task) = Some t"
  shows "\<exists>w' row' raised. on_failure cfg clk u w task e = (Inl raised, w')
       \<and> redis_queue w' = redis_queue w
       \<and> tasks_processed w' = tasks_processed w
       \<and> total_executed (execution_stats w') = total_executed (execution_stats w)
       \<and> successful (execution_stats w') = successful (execution_stats w)
       \<and> failures (breaker_of (retry_handler w') (task_type task)) =
           failures (breaker_of (retry_handler w) (task_type task)) + 1
       \<and> table (task_queue w') (id' task) = Some row'
       \<and> (status row' = RETRYING \<and> retried (execution_stats w') = retried (execution_stats w) + 1
           \<and> dead_letter_queue w' = dead_letter_queue w
          \<or> status row' = FAILED \<and> failed (execution_stats w') = failed (execution_stats w) + 1
           \<and> dead_letter_queue w' =
               add_dead_letter (dead_letter_queue w) task e (at_dead_letter clk)
          \<or> row' = t \<and> retried (execution_stats w') = retried (execution_stats w)
           \<and> failed (execution_stats w') = failed (execution_stats w)
           \<and> dead_letter_queue w' = dead_letter_queue w
           \<and> calculate_retry_delay cfg task e u = Inl raised)"
proof -
  let ?h1 = "record_failure (retry_handler w) (task_type task) (at_failure clk)"
  obtain outcome h2 where sr: "should_retry cfg ?h1 task e (at_check clk) u = (outcome, h2)"
    by (cases "should_retry cfg ?h1 task e (at_check clk) u") auto
  have "h2 = snd (should_retry cfg ?h1 task e (at_check clk) u)"
    using sr by simp
  then have "failures (breaker_of h2 (task_type task)) = failures (breaker_of ?h1 (task_type task))"
    by (simp only: failures_should_retry)
  then have f: "failures (breaker_of h2 (task_type task)) =
      failures (breaker_of (retry_handler w) (task_type task)) + 1"
    by (simp add: breaker_of_record_failure)
  show ?thesis
  proof (cases outcome)
    case (Inl raised)
    have "calculate_retry_delay cfg task e u = Inl raised"
      using sr Inl
      by (auto simp add: should_retry_def split: if_splits prod.splits bool.splits sum.splits)
    then show ?thesis
      using Inl f row by (simp add: on_failure_def Let_def sr)
  next
    case (Inr decision)
    obtain retry delay where d: "decision = (retry, delay)" by (cases decision)
    show ?thesis
    proof (cases retry)
      case True
      have u: "update_task_status (task_queue w) (id' task) RETRYING None None (at_finish clk) =
        Inr (updated_row t RETRYING None None (at_finish clk),
             store_put (task_queue w) (id' task) (updated_row t RETRYING None None (at_finish clk)))"
        using row by (rule update_task_status_put)
      show ?thesis
        using True f
        by (simp add: on_failure_def Let_def sr Inr d schedule_retry_def u table_store_put)
    next
      case False
      have u: "update_task_status (task_queue w) (id' task) FAILED None (Some (str_of e)) (at_finish clk) =
        Inr (updated_row t FAILED None (Some (str_of e)) (at_finish clk),
             store_put (task_queue w) (id' task)
               (updated_row t FAILED None (Some (str_of e)) (at_finish clk)))"
        using row by (rule update_task_status_put)
      show ?thesis
        using False f
        by (simp add: on_failure_def Let_def sr Inr d u table_store_put)
    qed
  qed
qed

lemma world_row:
  "id' t = 1 \<Longrightarrow> table (task_queue (world_of t dq)) (td_id envelope1) = Some t"
  by (simp add: world_of_def store_of_def envelope1_def)

lemma run_failing: "task_type t = ''text_processing'' \<Longrightarrow>
    run_handler failing t = Inl (Exn ''ConnectionError'' ''down'')"
  by (simp add: run_handler_def failing_def)

lemma run_succeeding: "task_type t = ''text_processing'' \<Longrightarrow>
    run_handler succeeding t = Inr ''new''"
  by (simp add: run_handler_def succeeding_def)

lemma task1_completed_fields:
  "id' task1_completed = 1" "task_type task1_completed = ''text_processing''"
  "status task1_completed = COMPLETED" "retry_count task1_completed = 0"
  "max_retries task1_completed = 3" "result task1_completed = Some ''old''"
  by (simp_all add: task1_completed_def task1_def)

lemma execute_failing_retry:
  assumes t: "id' t = 1" "task_type t = ''text_processing''" "retry_count t = 0"
    "max_retries t = 3"
  shows "execute_task default_settings py0 failing clock0 draw0 (world_of t []) t =
     (Inl (Exn ''ConnectionError'' ''down''),
      (world_of t [])
        \<lparr>execution_stats := \<lparr>total_executed = 1, successful = 0, failed = 0, retried = 1\<rparr>,
         task_queue := store_put (store_put (store_of t) 1
             (updated_row t RUNNING None None 10)) 1
             (updated_row (updated_row t RUNNING None None 10) RETRYING None None 11),
         retry_handler := set_breaker RetryHandler_init ''text_processing''
             \<lparr>failures = 1, last_failure = Some 12, state = Closed\<rparr>,
         timers := [(t\<lparr>retry_count := 1\<rparr>, Some 5)]\<rparr>)"
proof -
  let ?w0 = "(world_of t [])\<lparr>execution_stats :=
      (execution_stats (world_of t []))
        \<lparr>total_executed := total_executed (execution_stats (world_of t [])) + 1\<rparr>\<rparr>"
  have row0: "table (task_queue ?w0) (id' t) = Some t"
    by (simp add: world_of_def store_of_def)
  note att = attempt_failure [OF row0 run_failing [OF t(2)], of py0 clock0]
  have rf: "record_failure RetryHandler_init ''text_processing'' 12 =
      set_breaker RetryHandler_init ''text_processing''
        \<lparr>failures = 1, last_failure = Some 12, state = Closed\<rparr>"
    by (simp add: record_failure_def breaker_of_def RetryHandler_init_def new_breaker_def)
  have chk: "check_circuit_breaker (set_breaker RetryHandler_init ''text_processing''
        \<lparr>failures = 1, last_failure = Some 12, state = Closed\<rparr>) ''text_processing'' 13 =
      (True, set_breaker RetryHandler_init ''text_processing''
        \<lparr>failures = 1, last_failure = Some 12, state = Closed\<rparr>)"
    by (simp add: check_circuit_breaker_def breaker_of_set_breaker set_breaker_twice)
  have delay: "calculate_retry_delay default_settings t
      (Exn ''ConnectionError'' ''down'') draw0 = Inr 5"
    by (simp add: calculate_retry_delay_def get_retry_strategy_def default_settings_def
        t Let_def)
  have sr: "should_retry default_settings (set_breaker RetryHandler_init ''text_processing''
        \<lparr>failures = 1, last_failure = Some 12, state = Closed\<rparr>) t
        (Exn ''ConnectionError'' ''down'') 13 draw0 =
      (Inr (True, Some 5), set_breaker RetryHandler_init ''text_processing''
        \<lparr>failures = 1, last_failure = Some 12, state = Closed\<rparr>)"
    by (simp add: should_retry_def t chk delay)
  have upd: "update_task_status (store_put (store_of t) 1
        (updated_row t RUNNING None None 10)) 1 RETRYING None None 11 =
      Inr (updated_row (updated_row t RUNNING None None 10) RETRYING None None 11,
           store_put (store_put (store_of t) 1
             (updated_row t RUNNING None None 10)) 1
             (updated_row (updated_row t RUNNING None None 10) RETRYING None None 11))"
    by (rule update_task_status_put) (simp add: table_store_put)
  show ?thesis
    unfolding execute_task_def Let_def att
    by (simp add: on_failure_def Let_def t world_of_def clock0_def
        rf sr schedule_retry_def upd)
qed

lemma task1_fields:
  "id' task1 = 1" "task_type task1 = ''text_processing''" "retry_count task1 = 0"
  "max_retries task1 = 3"
  by (simp_all add: task1_def)

lemma after_failure_eq:
  "after_failure =
      (world_of task1 [])
        \<lparr>execution_stats := \<lparr>total_executed = 1, successful = 0, failed = 0, retried = 1\<rparr>,
         task_queue := store_put (store_put (store_of task1) 1
             (updated_row task1 RUNNING None None 10)) 1
             (updated_row (updated_row task1 RUNNING None None 10) RETRYING None None 11),
         retry_handler := set_breaker RetryHandler_init ''text_processing''
             \<lparr>failures = 1, last_failure = Some 12, state = Closed\<rparr>,
         timers := [(task1\<lparr>retry_count := 1\<rparr>, Some 5)]\<rparr>"
proof -
  have got: "get_task (task_queue (world_of task1 [])) (td_id envelope1) = Some task1"
    by (simp add: get_task_def world_row task1_fields)
  show ?thesis
    by (simp add: after_failure_def process_task_def got execute_failing_retry [OF task1_fields])
qed

lemma requeued_eq:
  "requeued =
     (True,
      (snd (create_task py0 default_settings
         (parked\<lparr>task_queue := store_put (store_of task1_failed) 1
              (updated_row task1_failed PENDING None None 50)\<rparr>)
         ''text_processing'' ''{}'' 50))
       \<lparr>dead_letter_queue := []\<rparr>)"
proof -
  have tq: "task_queue parked = store_of task1_failed"
    by (simp add: parked_def world_of_def)
  have row: "table (store_of task1_failed) 1 = Some task1_failed"
    by (simp add: store_of_def task1_failed_def task1_def)
  have dl: "map_of (dead_letter_queue parked) 1 =
      Some \<lparr>dl_task_id = 1, dl_task_type = ''text_processing'', dl_payload = ''{}'',
           dl_error_message = ''second'', dl_error_type = ''ConnectionError'',
           dl_retry_count = 3, dl_max_retries = 3, dl_created_at = Some 0, failed_at = 30\<rparr>"
    by (simp add: parked_def world_of_def parked_twice_eq)
  have got: "get_task (task_queue parked) 1 = Some task1_failed"
    by (simp add: get_task_def tq row)
  have upd: "update_task_status (task_queue parked) 1 PENDING None None 50 =
      Inr (updated_row task1_failed PENDING None None 50,
           store_put (store_of task1_failed) 1 (updated_row task1_failed PENDING None None 50))"
    unfolding tq using row by (rule update_task_status_put)
  have kind: "task_type task1_failed = ''text_processing''"
    by (simp add: task1_failed_def task1_def)
  have pl: "str_value py0 ''{}'' = ''{}''"
    by (simp add: py0_def)
  have dq: "dead_letter_queue (snd (create_task py0 default_settings
         (parked\<lparr>task_queue := store_put (store_of task1_failed) 1
              (updated_row task1_failed PENDING None None 50)\<rparr>)
         ''text_processing'' ''{}'' 50)) = parked_twice"
    by (simp add: create_task_def Let_def case_prod_beta parked_def world_of_def)
  have del: "AList.delete 1 parked_twice = []"
    by (simp add: parked_twice_eq)
  show ?thesis
    unfolding requeued_def retry_dead_letter_def
    by (simp add: dl got upd kind pl case_prod_beta dq del)
qed

text \<open>
  Claim C1 as stated fails. Neither \<open>_process_task\<close> nor \<open>execute_task\<close> looks at the
  status of the row: a COMPLETED task whose envelope is delivered again is run again. With
  a handler that fails, the row ends RETRYING, the breaker registry gains a record with
  one failure, \<open>retried\<close> is incremented, and the delivery is not acknowledged.
\<close>

theorem terminal_task_counterexample:
  "status task1_completed = COMPLETED
 \<and> map_option status
      (table (task_queue (process_task default_settings py0 failing clock0 draw0
         (world_of task1_completed []) envelope1)) 1) = Some RETRYING
 \<and> circuit_breakers (retry_handler (process_task default_settings py0 failing clock0 draw0
         (world_of task1_completed []) envelope1)) ''text_processing'' =
      Some \<lparr>failures = 1, last_failure = Some 12, state = Closed\<rparr>
 \<and> circuit_breakers (retry_handler (world_of task1_completed [])) ''text_processing'' = None
 \<and> retried (execution_stats (process_task default_settings py0 failing clock0 draw0
         (world_of task1_completed []) envelope1)) = 1
 \<and> 1 \<in> processing (redis_queue (process_task default_settings py0 failing clock0 draw0
         (world_of task1_completed []) envelope1))"
proof -
  have got: "get_task (task_queue (world_of task1_completed [])) (td_id envelope1) =
      Some task1_completed"
    by (simp add: get_task_def world_row task1_completed_fields)
  have p: "process_task default_settings py0 failing clock0 draw0
         (world_of task1_completed []) envelope1 =
      (world_of task1_completed [])
        \<lparr>execution_stats := \<lparr>total_executed = 1, successful = 0, failed = 0, retried = 1\<rparr>,
         task_queue := store_put (store_put (store_of task1_completed) 1
             (updated_row task1_completed RUNNING None None 10)) 1
             (updated_row (updated_row task1_completed RUNNING None None 10) RETRYING None None 11),
         retry_handler := set_breaker RetryHandler_init ''text_processing''
             \<lparr>failures = 1, last_failure = Some 12, state = Closed\<rparr>,
         timers := [(task1_completed\<lparr>retry_count := 1\<rparr>, Some 5)]\<rparr>"
    by (simp add: process_task_def got
        execute_failing_retry [OF task1_completed_fields(1,2,4,5)])
  show ?thesis
    unfolding p
    by (simp add: task1_completed_fields table_store_put circuit_breakers_set_breaker
        world_of_def RetryHandler_init_def)
qed

text \<open>
  Claim C1, amended. For every envelope whose task is in the store under its own id,
  whatever the task's status (COMPLETED and FAILED included), the worker runs the
  executor without a pre-check. \<open>total_executed\<close> is incremented and the outcome is the
  handler's. When the handler returns \<open>r\<close>: the row is rewritten as RUNNING and then
  COMPLETED with the new result, \<open>successful\<close> is incremented, \<open>record_success\<close> is
  applied to the registry, the dead letter queue is untouched and the delivery is
  acknowledged. When the handler raises \<open>e\<close>: the breaker of the kind counts one more
  failure, the delivery is not acknowledged, and the row ends RETRYING (with \<open>retried\<close>
  incremented) or FAILED (with \<open>failed\<close> incremented and the task added to the dead
  letter queue); or, when computing the retry delay raises, the exception leaves the
  \<open>except\<close> block and the row stays RUNNING with no further counter changed.
\<close>

theorem terminal_task_is_executed_again:
  assumes row: "table (task_queue w) (td_id env) = Some task"
    and key: "id' task = td_id env"
    and after: "w' = process_task cfg py hs clk u w env"
  shows "(run_handler hs task = Inr r \<longrightarrow>
            table (task_queue w') (td_id env) =
              Some (updated_row (updated_row task RUNNING None None (at_running clk)) COMPLETED
                      (Some (json_dumps py r)) None (at_finish clk))
          \<and> execution_stats w' = (execution_stats w)
              \<lparr>total_executed := total_executed (execution_stats w) + 1,
               successful := successful (execution_stats w) + 1\<rparr>
          \<and> retry_handler w' = record_success (retry_handler w) (task_type task)
          \<and> redis_queue w' = complete_task (redis_queue w) (td_id env)
          \<and> dead_letter_queue w' = dead_letter_queue w)
       \<and> (run_handler hs task = Inl e \<longrightarrow>
            total_executed (execution_stats w') = total_executed (execution_stats w) + 1
          \<and> redis_queue w' = redis_queue w
          \<and> failures (breaker_of (retry_handler w') (task_type task)) =
              failures (breaker_of (retry_handler w) (task_type task)) + 1
          \<and> (\<exists>row'. table (task_queue w') (td_id env) = Some row'
                \<and> (status row' = RETRYING
                     \<and> retried (execution_stats w') = retried (execution_stats w) + 1
                     \<and> dead_letter_queue w' = dead_letter_queue w
                    \<or> status row' = FAILED
                     \<and> failed (execution_stats w') = failed (execution_stats w) + 1
                     \<and> dead_letter_queue w' =
                         add_dead_letter (dead_letter_queue w) task e (at_dead_letter clk)
                    \<or> status row' = RUNNING
                     \<and> retried (execution_stats w') = retried (execution_stats w)
                     \<and> failed (execution_stats w') = failed (execution_stats w)
                     \<and> dead_letter_queue w' = dead_letter_queue w
                     \<and> (\<exists>raised. calculate_retry_delay cfg task e u = Inl raised))))"
proof (intro conjI impI)
  let ?w0 = "w\<lparr>execution_stats := (execution_stats w)
                   \<lparr>total_executed := total_executed (execution_stats w) + 1\<rparr>\<rparr>"
  have row0: "table (task_queue ?w0) (id' task) = Some task"
    using row key by simp
  have got: "get_task (task_queue w) (td_id env) = Some task"
    using row by (simp add: get_task_def)
  {
    assume ok: "run_handler hs task = Inr r"
    have ex: "execute_task cfg py hs clk u w task =
        (Inr r,
         ?w0\<lparr>task_queue :=
              store_put (store_put (task_queue ?w0) (id' task)
                  (updated_row task RUNNING None None (at_running clk))) (id' task)
                (updated_row (updated_row task RUNNING None None (at_running clk)) COMPLETED
                   (Some (json_dumps py r)) None (at_finish clk)),
            retry_handler := record_success (retry_handler ?w0) (task_type task),
            execution_stats := (execution_stats ?w0)
              \<lparr>successful := successful (execution_stats ?w0) + 1\<rparr>\<rparr>)"
      unfolding execute_task_def Let_def attempt_success [OF row0 ok] by simp
    have w': "w' =
         (?w0\<lparr>task_queue :=
              store_put (store_put (task_queue ?w0) (id' task)
                  (updated_row task RUNNING None None (at_running clk))) (id' task)
                (updated_row (updated_row task RUNNING None None (at_running clk)) COMPLETED
                   (Some (json_dumps py r)) None (at_finish clk)),
            retry_handler := record_success (retry_handler ?w0) (task_type task),
            execution_stats := (execution_stats ?w0)
              \<lparr>successful := successful (execution_stats ?w0) + 1\<rparr>\<rparr>)
          \<lparr>redis_queue := complete_task (redis_queue w) (td_id env),
           tasks_processed := tasks_processed w + 1\<rparr>"
      by (simp add: after process_task_def got ex)
    show "table (task_queue w') (td_id env) =
              Some (updated_row (updated_row task RUNNING None None (at_running clk)) COMPLETED
                      (Some (json_dumps py r)) None (at_finish clk))"
      unfolding w' using key by (simp add: table_store_put)
    show "execution_stats w' = (execution_stats w)
              \<lparr>total_executed := total_executed (execution_stats w) + 1,
               successful := successful (execution_stats w) + 1\<rparr>"
      unfolding w' by simp
    show "retry_handler w' = record_success (retry_handler w) (task_type task)"
      unfolding w' by simp
    show "redis_queue w' = complete_task (redis_queue w) (td_id env)"
      unfolding w' by simp
    show "dead_letter_queue w' = dead_letter_queue w"
      unfolding w' by simp
  }
  {
    assume bad: "run_handler hs task = Inl e"
    let ?w1 = "?w0\<lparr>task_queue := store_put (task_queue ?w0) (id' task)
          (updated_row task RUNNING None None (at_running clk))\<rparr>"
    have row1: "table (task_queue ?w1) (id' task) =
        Some (updated_row task RUNNING None None (at_running clk))"
      by (simp add: table_store_put)
    from on_failure_outcome [OF row1, of cfg clk u e]
    obtain w2 row' raised where out: "on_failure cfg clk u ?w1 task e = (Inl raised, w2)"
      and facts: "redis_queue w2 = redis_queue ?w1"
        "total_executed (execution_stats w2) = total_executed (execution_stats ?w1)"
        "failures (breaker_of (retry_handler w2) (task_type task)) =
           failures (breaker_of (retry_handler ?w1) (task_type task)) + 1"
        "table (task_queue w2) (id' task) = Some row'"
        "status row' = RETRYING \<and> retried (execution_stats w2) = retried (execution_stats ?w1) + 1
           \<and> dead_letter_queue w2 = dead_letter_queue ?w1
          \<or> status row' = FAILED \<and> failed (execution_stats w2) = failed (execution_stats ?w1) + 1
           \<and> dead_letter_queue w2 =
               add_dead_letter (dead_letter_queue ?w1) task e (at_dead_letter clk)
          \<or> row' = updated_row task RUNNING None None (at_running clk)
           \<and> retried (execution_stats w2) = retried (execution_stats ?w1)
           \<and> failed (execution_stats w2) = failed (execution_stats ?w1)
           \<and> dead_letter_queue w2 = dead_letter_queue ?w1
           \<and> calculate_retry_delay cfg task e u = Inl raised"
      by blast
    have ex: "execute_task cfg py hs clk u w task = (Inl raised, w2)"
      unfolding execute_task_def Let_def attempt_failure [OF row0 bad] using out by simp
    have w': "w' = w2"
      by (simp add: after process_task_def got ex)
    show "total_executed (execution_stats w') = total_executed (execution_stats w) + 1"
      unfolding w' using facts(2) by simp
    show "redis_queue w' = redis_queue w"
      unfolding w' using facts(1) by simp
    show "failures (breaker_of (retry_handler w') (task_type task)) =
              failures (breaker_of (retry_handler w) (task_type task)) + 1"
      unfolding w' using facts(3) by simp
    show "\<exists>row'. table (task_queue w') (td_id env) = Some row'
                \<and> (status row' = RETRYING
                     \<and> retried (execution_stats w') = retried (execution_stats w) + 1
                     \<and> dead_letter_queue w' = dead_letter_queue w
                    \<or> status row' = FAILED
                     \<and> failed (execution_stats w') = failed (execution_stats w) + 1
                     \<and> dead_letter_queue w' =
                         add_dead_letter (dead_letter_queue w) task e (at_dead_letter clk)
                    \<or> status row' = RUNNING
                     \<and> retried (execution_stats w') = retried (execution_stats w)
                     \<and> failed (execution_stats w') = failed (execution_stats w)
                     \<and> dead_letter_queue w' = dead_letter_queue w
                     \<and> (\<exists>raised. calculate_retry_delay cfg task e u = Inl raised))"
      unfolding w' using facts(4,5) key by auto
  }
qed

theorem terminal_task_is_executed_again_witness:
  "table (task_queue (process_task default_settings py0 succeeding clock0 draw0
       (world_of task1_completed []) envelope1)) 1 =
     Some (task1_completed\<lparr>result := Some ''new'', completed_at := Some 11\<rparr>)
 \<and> execution_stats (process_task default_settings py0 succeeding clock0 draw0
       (world_of task1_completed []) envelope1) =
     \<lparr>total_executed = 1, successful = 1, failed = 0, retried = 0\<rparr>
 \<and> processing (redis_queue (process_task default_settings py0 succeeding clock0 draw0
       (world_of task1_completed []) envelope1)) = {}
 \<and> total_executed (execution_stats (process_task default_settings py0 failing clock0 draw0
       (world_of task1_completed []) envelope1)) = 1
 \<and> failures (breaker_of (retry_handler (process_task default_settings py0 failing clock0 draw0
       (world_of task1_completed []) envelope1)) ''text_processing'') = 1
 \<and> processing (redis_queue (process_task default_settings py0 failing clock0 draw0
       (world_of task1_completed []) envelope1)) = {1}"
proof -
  note row = world_row [OF task1_completed_fields(1), of "[]"]
  have key: "id' task1_completed = td_id envelope1"
    by (simp add: task1_completed_fields envelope1_def)
  note ok = terminal_task_is_executed_again [OF row key refl,
      where hs = succeeding and r = "''new''" and py = py0 and clk = clock0
        and cfg = default_settings and u = draw0 and e = "Exn ''ConnectionError'' ''down''"]
  note bad = terminal_task_is_executed_again [OF row key refl,
      where hs = failing and r = "''new''" and py = py0 and clk = clock0
        and cfg = default_settings and u = draw0 and e = "Exn ''ConnectionError'' ''down''"]
  have r: "updated_row (updated_row task1_completed RUNNING None None (at_running clock0)) COMPLETED
      (Some (json_dumps py0 ''new'')) None (at_finish clock0) =
      task1_completed\<lparr>result := Some ''new'', completed_at := Some 11\<rparr>"
    by (simp add: updated_row_def task1_completed_def task1_def py0_def clock0_def)
  have init: "execution_stats (world_of task1_completed []) =
      \<lparr>total_executed = 0, successful = 0, failed = 0, retried = 0\<rparr>"
    "redis_queue (world_of task1_completed []) = \<lparr>task_queue_key = [], processing = {1}\<rparr>"
    "breaker_of (retry_handler (world_of task1_completed [])) ''text_processing'' = new_breaker"
    by (simp_all add: world_of_def task1_completed_fields breaker_of_def RetryHandler_init_def)
  show ?thesis
    using ok bad
    by (simp add: run_succeeding run_failing task1_completed_fields r init envelope1_def
        complete_task_def new_breaker_def)
qed

subsection \<open>The retry path\<close>

text \<open>
  Claim C2, evaluated on the code. Task 1 (PENDING, \<open>retry_count = 0\<close>, \<open>max_retries = 3\<close>)
  fails with a ConnectionError. The row is set to RETRYING before the timer is created,
  but its \<open>retry_count\<close> stays 0: the increment is applied to the executor's detached
  object, the one the timer captures. When the timer fires, \<open>redis_queue.create_task\<close>
  inserts a new row and the envelope pushed carries the new id 2, not 1; row 1 stays
  RETRYING with \<open>retry_count = 0\<close>.
\<close>

theorem retry_keeps_count_and_enqueues_new_task:
  "timers after_failure = [(task1\<lparr>retry_count := 1\<rparr>, Some 5)]
 \<and> map_option status (table (task_queue after_failure) 1) = Some RETRYING
 \<and> map_option retry_count (table (task_queue after_failure) 1) = Some 0
 \<and> map td_id (task_queue_key (redis_queue
        (retry_after_delay py0 default_settings after_failure (task1\<lparr>retry_count := 1\<rparr>) 20)))
     = [2]
 \<and> map_option retry_count (table (task_queue
        (retry_after_delay py0 default_settings after_failure (task1\<lparr>retry_count := 1\<rparr>) 20)) 1)
     = Some 0
 \<and> map_option status (table (task_queue
        (retry_after_delay py0 default_settings after_failure (task1\<lparr>retry_count := 1\<rparr>) 20)) 2)
     = Some PENDING"
proof -
  have a: "timers after_failure = [(task1\<lparr>retry_count := 1\<rparr>, Some 5)]"
    "map_option status (table (task_queue after_failure) 1) = Some RETRYING"
    "map_option retry_count (table (task_queue after_failure) 1) = Some 0"
    by (simp_all add: after_failure_eq table_store_put updated_row_def task1_def)
  have n: "next_id (task_queue after_failure) = 2"
    "task_queue_key (redis_queue after_failure) = []"
    by (simp_all add: after_failure_eq store_put_def world_of_def store_of_def task1_def)
  have b: "map td_id (task_queue_key (redis_queue
        (retry_after_delay py0 default_settings after_failure (task1\<lparr>retry_count := 1\<rparr>) 20)))
     = [2]"
    by (simp add: retry_after_delay_def py0_def create_task_def tq_create_task_def Let_def n)
  have c: "table (task_queue
        (retry_after_delay py0 default_settings after_failure (task1\<lparr>retry_count := 1\<rparr>) 20)) 1
      = table (task_queue after_failure) 1"
    by (simp add: retry_after_delay_def py0_def create_task_def tq_create_task_def Let_def n)
  have d: "map_option status (table (task_queue
        (retry_after_delay py0 default_settings after_failure (task1\<lparr>retry_count := 1\<rparr>) 20)) 2)
     = Some PENDING"
    by (simp add: retry_after_delay_def py0_def create_task_def tq_create_task_def Let_def n)
  from a b d show ?thesis
    unfolding c by simp
qed

subsection \<open>Requeue from the dead letter queue\<close>

text \<open>
  Claim C3, evaluated on the code. Task 1 is FAILED with \<open>retry_count = 3\<close> and has an
  entry in the dead letter queue. \<open>retry_dead_letter(1)\<close> returns true and removes the
  entry; row 1 becomes PENDING but keeps \<open>retry_count = 3\<close>, and the envelope pushed is
  that of a new row with id 2.
\<close>

theorem requeue_keeps_count_and_enqueues_new_task:
  "fst requeued = True
 \<and> map_option status (table (task_queue (snd requeued)) 1) = Some PENDING
 \<and> map_option retry_count (table (task_queue (snd requeued)) 1) = Some 3
 \<and> map td_id (task_queue_key (redis_queue (snd requeued))) = [2]
 \<and> map_option status (table (task_queue (snd requeued)) 2) = Some PENDING
 \<and> dead_letter_queue (snd requeued) = []"
proof -
  have n: "next_id (store_put (store_of task1_failed) 1
              (updated_row task1_failed PENDING None None 50)) = 2"
    by (simp add: store_put_def store_of_def task1_failed_def task1_def)
  have q: "task_queue_key (redis_queue parked) = []"
    by (simp add: parked_def world_of_def)
  have one: "table (store_put (store_of task1_failed) 1
              (updated_row task1_failed PENDING None None 50)) 1 =
      Some (updated_row task1_failed PENDING None None 50)"
    by (simp add: table_store_put)
  have rc: "retry_count (updated_row task1_failed PENDING None None 50) = 3"
    by (simp add: updated_row_def task1_failed_def task1_def)
  have "fst requeued = True"
    by (simp add: requeued_eq)
  moreover have "map_option status (table (task_queue (snd requeued)) 1) = Some PENDING"
    by (simp add: requeued_eq create_task_def tq_create_task_def Let_def n one)
  moreover have "map_option retry_count (table (task_queue (snd requeued)) 1) = Some 3"
    by (simp add: requeued_eq create_task_def tq_create_task_def Let_def n one rc)
  moreover have "map td_id (task_queue_key (redis_queue (snd requeued))) = [2]"
    by (simp add: requeued_eq create_task_def tq_create_task_def Let_def n q)
  moreover have "map_option status (table (task_queue (snd requeued)) 2) = Some PENDING"
    by (simp add: requeued_eq create_task_def tq_create_task_def Let_def n)
  moreover have "dead_letter_queue (snd requeued) = []"
    by (simp add: requeued_eq)
  ultimately show ?thesis by blast
qed

section \<open>Properties of the submission endpoint\<close>

text \<open>
  Claim C8, evaluated on the code. The status of the answer of \<open>POST /tasks/\<close> is 201
  for a recognised kind and 500 for every other kind: the \<open>HTTPException\<close> with status 400
  raised inside the \<open>try\<close> block is caught by \<open>except Exception\<close> and replaced by one
  with status 500 whose detail is the text of the first.
\<close>

theorem submit_never_answers_400:
  "response_status (fst (create_task_endpoint py cfg w task_request now)) =
     (if req_task_type task_request \<in> set valid_task_types then 201 else 500)
 \<and> fst (create_task_endpoint py0 default_settings (world_of task1 [])
        \<lparr>req_task_type = ''invalid_type'', req_payload = ''{}''\<rparr> 50) =
     Inl (HTTPException 500 (StrOfHttp (HTTPException 400
       (Literal (''Invalid task_type. Must be one of: '' @ repr_list valid_task_types)))))"
  by (simp add: create_task_endpoint_def create_task_try_def response_status_def
      valid_task_types_def split: prod.splits)

end
